theory Spec2Isabelle
  imports Main "HOL-Library.Word"
begin

unbundle bit_operations_syntax

section \<open>Data model of Memory\_Pool.h\<close>

text \<open>
  \<open>size_t\<close> is a 64-bit unsigned integer (LP64), so every counter wraps modulo \<open>2^64\<close>.
  A \<open>void *\<close> is either \<open>nullptr\<close> (\<open>None\<close>) or an address (\<open>Some a\<close>).
  The model is sequential: one thread owns the thread-local cache, and the per-pool
  \<open>std::mutex\<close> has no effect on a single thread. A data member that the source
  writes with a trailing underscore (\<open>pools_\<close>) ends in \<open>_m\<close> here (\<open>pools_m\<close>).
\<close>

type_synonym size_t = "64 word"
type_synonym addr = nat
type_synonym ptr = "addr option"

text \<open>
  What a call can end in besides returning: the C++ run time has undefined behaviour when
  a header is read from memory where none was ever written, and
  \<open>std::runtime_error\<close> is thrown by the scoped wrapper.
\<close>

datatype fault = Undefined_Behaviour | Runtime_Error string

text \<open>\<open>struct Memory_Block_Header\<close>; \<open>pool_ptr\<close> holds the identity of the owning pool
  (its index in \<open>pools_m\<close>), \<open>None\<close> for \<open>nullptr\<close>.\<close>

record Memory_Block_Header =
  size_hdr :: size_t
  block_size :: size_t
  in_use :: bool
  pool_ptr :: "nat option"

text \<open>The private members of \<open>class Fixed_Size_Pool\<close> (the mutex left out).\<close>

record Fixed_Size_Pool =
  block_size_m :: size_t
  alignment_m :: size_t
  free_blocks_m :: "addr list"
  current_used_m :: size_t
  current_free_m :: size_t
  total_allocated_m :: size_t

record Thread_Local_Cache =
  cache :: "addr list list"
  cache_size :: size_t

record PoolConfig =
  small_block_sizes :: "size_t list"
  max_total_memory :: size_t
  alignment :: size_t
  enable_tls :: bool
  tls_cache_size :: size_t
  cleanup_interval :: nat
  idle_timeout :: nat

record PoolStats =
  total_allocated :: size_t
  total_freed :: size_t
  current_used :: size_t
  current_free :: size_t
  alloc_count :: size_t
  free_count :: size_t
  fragment_count :: size_t

text \<open>The members of \<open>class Memory_Pool\<close> (mutex and cleaner thread left out).\<close>

record Memory_Pool =
  config_m :: PoolConfig
  stats_m :: PoolStats
  pools_m :: "Fixed_Size_Pool list"
  shutdown_m :: bool

text \<open>
  The allocator object together with what it acts on: the two function-local
  \<open>thread_local\<close> statics of \<open>get_tls_cache\<close>, and the platform heap. The heap keeps
  the block headers that were written (keyed by the address \<open>malloc\<close> returned), the
  payload bytes, a bump pointer with a capacity for \<open>std::malloc\<close>, and the addresses
  handed to \<open>std::free\<close>.
\<close>

record machine = Memory_Pool +
  tls_cache :: "Thread_Local_Cache option"
  tls_initialized :: bool
  headers :: "addr \<rightharpoonup> Memory_Block_Header"
  bytes :: "addr \<Rightarrow> 8 word"
  heap_next :: addr
  heap_limit :: addr
  freed :: "addr list"

section \<open>The platform allocator\<close>

text \<open>\<open>std::malloc\<close> as a bump allocator over the addresses below \<open>heap_limit\<close>: it
  fails when the request does not fit, and never returns an address twice.\<close>

definition malloc :: "nat \<Rightarrow> machine \<Rightarrow> ptr \<times> machine" where
  "malloc n s =
     (if heap_next s + n \<le> heap_limit s
      then (Some (heap_next s), s\<lparr>heap_next := heap_next s + n\<rparr>)
      else (None, s))"

text \<open>\<open>std::free\<close>: the block's header is gone with the block, and the address is
  recorded. The model does not judge whether the address is one \<open>malloc\<close> returned.\<close>

definition free :: "addr \<Rightarrow> machine \<Rightarrow> machine" where
  "free a s = s\<lparr>headers := (headers s)(a := None), freed := freed s @ [a]\<rparr>"

definition memcpy :: "addr \<Rightarrow> addr \<Rightarrow> nat \<Rightarrow> machine \<Rightarrow> machine" where
  "memcpy dst src n s =
     s\<lparr>bytes := (\<lambda>a. if dst \<le> a \<and> a < dst + n then bytes s (src + (a - dst)) else bytes s a)\<rparr>"

text \<open>\<open>sizeof(Memory_Block_Header)\<close> under LP64: 8 + 8 + 1 (+ 7 padding) + 8.\<close>

definition sizeof_Memory_Block_Header :: size_t where
  "sizeof_Memory_Block_Header = 32"

text \<open>\<open>(sizeof(Memory_Block_Header) + alignment - 1) & ~(alignment - 1)\<close>, as computed in
  \<open>Fixed_Size_Pool::allocate\<close>, \<open>Fixed_Size_Pool::deallocate\<close>, \<open>Memory_Pool::deallocate\<close>
  and \<open>Memory_Pool::reallocate\<close>.\<close>

definition header_size :: "size_t \<Rightarrow> size_t" where
  "header_size al = (sizeof_Memory_Block_Header + al - 1) AND NOT (al - 1)"

text \<open>\<open>reinterpret_cast<Memory_Block_Header *>(static_cast<char *>(ptr) - header_size)\<close>
  followed by a read through it: there is a header only where one was written.\<close>

definition read_header :: "size_t \<Rightarrow> addr \<Rightarrow> machine \<Rightarrow> Memory_Block_Header option" where
  "read_header hs p s = (if p < unat hs then None else headers s (p - unat hs))"

section \<open>Fixed\_Size\_Pool\<close>

definition Fixed_Size_Pool_ctor :: "size_t \<Rightarrow> size_t \<Rightarrow> Fixed_Size_Pool" where
  "Fixed_Size_Pool_ctor bs al =
     \<lparr>block_size_m = (bs + al - 1) AND NOT (al - 1), alignment_m = al, free_blocks_m = [],
      current_used_m = 0, current_free_m = 0, total_allocated_m = 0\<rparr>"

text \<open>\<open>Fixed_Size_Pool::allocate\<close> on the pool \<open>pools_m[this]\<close>.\<close>

definition Fixed_Size_Pool_allocate :: "nat \<Rightarrow> machine \<Rightarrow> ptr \<times> machine" where
  "Fixed_Size_Pool_allocate this s =
     (let P = pools_m s ! this in
      case free_blocks_m P of
        p # rest \<Rightarrow>
          (Some p,
           s\<lparr>pools_m := (pools_m s)[this := P\<lparr>free_blocks_m := rest,
                                            current_used_m := current_used_m P + 1,
                                            current_free_m := current_free_m P - 1\<rparr>]\<rparr>)
      | [] \<Rightarrow>
          (let hs = header_size (alignment_m P);
               total_size = hs + block_size_m P
           in case malloc (unat total_size) s of
                (None, s') \<Rightarrow> (None, s')
              | (Some raw_ptr, s') \<Rightarrow>
                  (Some (raw_ptr + unat hs),
                   s'\<lparr>headers := (headers s')(raw_ptr \<mapsto>
                          \<lparr>size_hdr = block_size_m P, block_size = block_size_m P,
                           in_use = True, pool_ptr = Some this\<rparr>),
                      pools_m := (pools_m s')[this := P\<lparr>current_used_m := current_used_m P + 1,
                                                      total_allocated_m := total_allocated_m P + 1\<rparr>]\<rparr>)))"

text \<open>\<open>Fixed_Size_Pool::deallocate\<close> on the pool \<open>pools_m[this]\<close>.\<close>

definition Fixed_Size_Pool_deallocate :: "nat \<Rightarrow> ptr \<Rightarrow> machine \<Rightarrow> fault + machine" where
  "Fixed_Size_Pool_deallocate this ptr s =
     (case ptr of
        None \<Rightarrow> Inr s
      | Some p \<Rightarrow>
          (let P = pools_m s ! this;
               hs = header_size (alignment_m P)
           in case read_header hs p s of
                None \<Rightarrow> Inl Undefined_Behaviour
              | Some header \<Rightarrow>
                  if pool_ptr header \<noteq> Some this \<or> \<not> in_use header then Inr s
                  else Inr (s\<lparr>headers := (headers s)(p - unat hs \<mapsto> header\<lparr>in_use := False\<rparr>),
                              pools_m := (pools_m s)[this := P\<lparr>free_blocks_m := free_blocks_m P @ [p],
                                                             current_used_m := current_used_m P - 1,
                                                             current_free_m := current_free_m P + 1\<rparr>]\<rparr>)))"

section \<open>Memory\_Pool\<close>

definition default_PoolConfig :: PoolConfig where
  "default_PoolConfig =
     \<lparr>small_block_sizes = [8, 16, 32, 64, 128, 256, 512, 1024],
      max_total_memory = 1024 * 1024 * 1024, alignment = 8, enable_tls = True,
      tls_cache_size = 16, cleanup_interval = 30, idle_timeout = 300\<rparr>"

function find_pool_index_loop :: "PoolConfig \<Rightarrow> int \<Rightarrow> size_t \<Rightarrow> int" where
  "find_pool_index_loop cfg i sz =
     (if i < 8
      then (if sz \<le> small_block_sizes cfg ! nat i then i
            else find_pool_index_loop cfg (i + 1) sz)
      else - 1)"
  by pat_completeness auto
termination
  by (relation "measure (\<lambda>(cfg, i, sz). nat (8 - i))") auto

declare find_pool_index_loop.simps [simp del]

definition find_pool_index :: "PoolConfig \<Rightarrow> size_t \<Rightarrow> int" where
  "find_pool_index cfg sz = find_pool_index_loop cfg 0 sz"

definition new_Thread_Local_Cache :: Thread_Local_Cache where
  "new_Thread_Local_Cache = \<lparr>cache = replicate 8 [], cache_size = 16\<rparr>"

definition get_tls_cache :: "machine \<Rightarrow> Thread_Local_Cache option \<times> machine" where
  "get_tls_cache s =
     (if \<not> enable_tls (config_m s) then (None, s)
      else if \<not> tls_initialized s
      then (let c = new_Thread_Local_Cache\<lparr>cache_size := tls_cache_size (config_m s)\<rparr>
            in (Some c, s\<lparr>tls_cache := Some c, tls_initialized := True\<rparr>))
      else (tls_cache s, s))"

definition allocate_from_tls :: "int \<Rightarrow> machine \<Rightarrow> ptr \<times> machine" where
  "allocate_from_tls pool_index s =
     (case get_tls_cache s of
        (None, s') \<Rightarrow> (None, s')
      | (Some c, s') \<Rightarrow>
          if pool_index < 0 \<or> pool_index \<ge> 8 then (None, s')
          else (let row = cache c ! nat pool_index
                in if row \<noteq> []
                   then (Some (last row),
                         s'\<lparr>tls_cache := Some (c\<lparr>cache := (cache c)[nat pool_index := butlast row]\<rparr>)\<rparr>)
                   else (None, s')))"

definition return_to_tls :: "int \<Rightarrow> ptr \<Rightarrow> machine \<Rightarrow> bool \<times> machine" where
  "return_to_tls pool_index ptr s =
     (case get_tls_cache s of
        (None, s') \<Rightarrow> (False, s')
      | (Some c, s') \<Rightarrow>
          (case ptr of
             None \<Rightarrow> (False, s')
           | Some p \<Rightarrow>
               if pool_index < 0 \<or> pool_index \<ge> 8 then (False, s')
               else (let row = cache c ! nat pool_index
                     in if length row < unat (cache_size c)
                        then (True,
                              s'\<lparr>tls_cache := Some (c\<lparr>cache := (cache c)[nat pool_index := row @ [p]]\<rparr>)\<rparr>)
                        else (False, s'))))"

definition initialize_pools :: "PoolConfig \<Rightarrow> Fixed_Size_Pool list" where
  "initialize_pools cfg =
     map (\<lambda>i. Fixed_Size_Pool_ctor (small_block_sizes cfg ! i) (alignment cfg)) [0..<8]"

text \<open>The constructor \<open>Memory_Pool(max_total_memory, enable_tls, alignment)\<close>.\<close>

definition Memory_Pool_ctor :: "size_t \<Rightarrow> bool \<Rightarrow> size_t \<Rightarrow> Memory_Pool" where
  "Memory_Pool_ctor mtm tls al =
     (let cfg = default_PoolConfig\<lparr>max_total_memory := mtm, enable_tls := tls, alignment := al\<rparr>
      in \<lparr>config_m = cfg,
          stats_m = \<lparr>total_allocated = 0, total_freed = 0, current_used = 0, current_free = 0,
                    alloc_count = 0, free_count = 0, fragment_count = 0\<rparr>,
          pools_m = initialize_pools cfg,
          shutdown_m = False\<rparr>)"

text \<open>A freshly constructed allocator on a thread that has not touched its cache yet, with
  a platform heap that serves the addresses from \<open>base\<close> up to \<open>limit\<close>.\<close>

definition new_machine :: "size_t \<Rightarrow> bool \<Rightarrow> size_t \<Rightarrow> addr \<Rightarrow> addr \<Rightarrow> machine" where
  "new_machine mtm tls al base limit =
     (let mp = Memory_Pool_ctor mtm tls al
      in \<lparr>config_m = config_m mp, stats_m = stats_m mp, pools_m = pools_m mp,
          shutdown_m = shutdown_m mp,
          tls_cache = None, tls_initialized = False,
          headers = Map.empty, bytes = (\<lambda>_. 0),
          heap_next = base, heap_limit = limit, freed = []\<rparr>)"

definition allocate :: "size_t \<Rightarrow> machine \<Rightarrow> ptr \<times> machine" where
  "allocate sz s =
     (if shutdown_m s \<or> sz = 0 then (None, s)
      else
        (let s1 = s\<lparr>stats_m := (stats_m s)\<lparr>alloc_count := alloc_count (stats_m s) + 1\<rparr>\<rparr>;
             pool_index = find_pool_index (config_m s1) sz
         in if pool_index \<ge> 0
            then (let c = small_block_sizes (config_m s1) ! nat pool_index
                  in case allocate_from_tls pool_index s1 of
                       (Some p, s2) \<Rightarrow>
                         (Some p,
                          s2\<lparr>stats_m := (stats_m s2)\<lparr>total_allocated := total_allocated (stats_m s2) + c,
                                                    current_used := current_used (stats_m s2) + c\<rparr>\<rparr>)
                     | (None, s2) \<Rightarrow>
                         (case Fixed_Size_Pool_allocate (nat pool_index) s2 of
                            (Some p, s3) \<Rightarrow>
                              (Some p,
                               s3\<lparr>stats_m := (stats_m s3)\<lparr>total_allocated := total_allocated (stats_m s3) + c,
                                                         current_used := current_used (stats_m s3) + c,
                                                         current_free := current_free (stats_m s3) - c\<rparr>\<rparr>)
                          | (None, s3) \<Rightarrow> (None, s3)))
            else (case malloc (unat sz) s1 of
                    (Some p, s2) \<Rightarrow>
                      (Some p,
                       s2\<lparr>stats_m := (stats_m s2)\<lparr>total_allocated := total_allocated (stats_m s2) + sz,
                                                 current_used := current_used (stats_m s2) + sz\<rparr>\<rparr>)
                  | (None, s2) \<Rightarrow> (None, s2))))"

definition deallocate :: "ptr \<Rightarrow> machine \<Rightarrow> fault + machine" where
  "deallocate ptr s =
     (case ptr of
        None \<Rightarrow> Inr s
      | Some p \<Rightarrow>
          (let s1 = s\<lparr>stats_m := (stats_m s)\<lparr>free_count := free_count (stats_m s) + 1\<rparr>\<rparr>;
               hs = header_size (alignment (config_m s1))
           in case read_header hs p s1 of
                None \<Rightarrow> Inl Undefined_Behaviour
              | Some header \<Rightarrow>
                  (let pool_index = find_pool_index (config_m s1) (block_size header)
                   in if pool_ptr header \<noteq> None \<and> pool_index \<ge> 0
                         \<and> pool_ptr header = Some (nat pool_index)
                      then (let c = small_block_sizes (config_m s1) ! nat pool_index
                            in case return_to_tls pool_index ptr s1 of
                                 (True, s2) \<Rightarrow> Inr s2
                               | (False, s2) \<Rightarrow>
                                   (case Fixed_Size_Pool_deallocate (nat pool_index) ptr s2 of
                                      Inl e \<Rightarrow> Inl e
                                    | Inr s3 \<Rightarrow>
                                        Inr (s3\<lparr>stats_m := (stats_m s3)
                                               \<lparr>total_freed := total_freed (stats_m s3) + c,
                                                current_used := current_used (stats_m s3) - c,
                                                current_free := current_free (stats_m s3) + c\<rparr>\<rparr>)))
                      else (let sz = size_hdr header;
                                s2 = free (p - unat hs) s1
                            in Inr (s2\<lparr>stats_m := (stats_m s2)
                                      \<lparr>total_freed := total_freed (stats_m s2) + sz,
                                       current_used := current_used (stats_m s2) - sz\<rparr>\<rparr>)))))"

definition reallocate :: "ptr \<Rightarrow> size_t \<Rightarrow> machine \<Rightarrow> fault + (ptr \<times> machine)" where
  "reallocate ptr new_size s =
     (case ptr of
        None \<Rightarrow> Inr (allocate new_size s)
      | Some p \<Rightarrow>
          (let hs = header_size (alignment (config_m s))
           in case read_header hs p s of
                None \<Rightarrow> Inl Undefined_Behaviour
              | Some header \<Rightarrow>
                  (let old_size = size_hdr header
                   in if new_size \<le> old_size \<and> new_size > old_size div 2 then Inr (ptr, s)
                      else (case allocate new_size s of
                              (None, s1) \<Rightarrow> Inr (None, s1)
                            | (Some new_ptr, s1) \<Rightarrow>
                                (let copy_size = (if old_size < new_size then old_size else new_size);
                                     s2 = memcpy new_ptr p (unat copy_size) s1
                                 in case deallocate ptr s2 of
                                      Inl e \<Rightarrow> Inl e
                                    | Inr s3 \<Rightarrow> Inr (Some new_ptr, s3))))))"

section \<open>Memory\_Pool\_RAII\<close>

record Memory_Pool_RAII =
  memory_ptr_m :: ptr
  size_m :: size_t

text \<open>The constructor either throws or yields the handle; the allocator has been called
  in both cases, so the machine after the call is returned beside the outcome.\<close>

definition Memory_Pool_RAII_ctor :: "size_t \<Rightarrow> machine \<Rightarrow> (fault + Memory_Pool_RAII) \<times> machine" where
  "Memory_Pool_RAII_ctor sz s =
     (case allocate sz s of
        (None, s') \<Rightarrow> (Inl (Runtime_Error ''Memory allocation failed''), s')
      | (Some p, s') \<Rightarrow> (Inr \<lparr>memory_ptr_m = Some p, size_m = sz\<rparr>, s'))"

definition Memory_Pool_RAII_dtor :: "Memory_Pool_RAII \<Rightarrow> machine \<Rightarrow> fault + machine" where
  "Memory_Pool_RAII_dtor h s =
     (if memory_ptr_m h \<noteq> None then deallocate (memory_ptr_m h) s else Inr s)"

text \<open>
  Two predicates on machine states, used to state what holds for a block handed out by
  \<open>allocate\<close> and not yet returned. \<open>well_formed\<close> is the shape the constructor
  establishes: eight pools, each with the configured alignment, and a thread cache (once
  created) of eight stashes. \<open>allocated_block s p\<close> says that \<open>p\<close> lies in the part of the heap that
  \<open>malloc\<close> has already handed out and sits neither in a pool's free list nor in the thread
  cache.
\<close>

definition well_formed :: "machine \<Rightarrow> bool" where
  "well_formed s \<longleftrightarrow>
     length (pools_m s) = 8
   \<and> (\<forall>P \<in> set (pools_m s). alignment_m P = alignment (config_m s))
   \<and> (case tls_cache s of None \<Rightarrow> True | Some c \<Rightarrow> length (cache c) = 8)"

definition allocated_block :: "machine \<Rightarrow> addr \<Rightarrow> bool" where
  "allocated_block s p \<longleftrightarrow>
     p < heap_next s
   \<and> (\<forall>P \<in> set (pools_m s). p \<notin> set (free_blocks_m P))
   \<and> (case tls_cache s of None \<Rightarrow> True | Some c \<Rightarrow> \<forall>row \<in> set (cache c). p \<notin> set row)"

text \<open>The allocator as its constructor's default arguments build it, on a heap that
  serves the addresses 4096 to 1048576: the start state of the worked examples.\<close>

abbreviation default_machine :: machine where
  "default_machine \<equiv> new_machine 1073741824 True 8 4096 1048576"

section \<open>Classification\<close>

lemma find_pool_index_default:
  assumes "small_block_sizes cfg = [8, 16, 32, 64, 128, 256, 512, 1024]"
  shows "find_pool_index cfg sz =
     (if unat sz \<le> 8 then 0 else if unat sz \<le> 16 then 1 else if unat sz \<le> 32 then 2
      else if unat sz \<le> 64 then 3 else if unat sz \<le> 128 then 4 else if unat sz \<le> 256 then 5
      else if unat sz \<le> 512 then 6 else if unat sz \<le> 1024 then 7 else - 1)"
  using assms by (simp add: find_pool_index_def find_pool_index_loop.simps word_le_nat_alt)

lemma find_pool_index_range:
  "find_pool_index cfg sz = - 1 \<or> (0 \<le> find_pool_index cfg sz \<and> find_pool_index cfg sz < 8)"
  by (simp add: find_pool_index_def find_pool_index_loop.simps)

lemma nat_less_8_cases:
  "(j::nat) < 8 \<Longrightarrow> j = 0 \<or> j = 1 \<or> j = 2 \<or> j = 3 \<or> j = 4 \<or> j = 5 \<or> j = 6 \<or> j = 7"
  by arith

text \<open>
  C7. With the size-class table of \<open>PoolConfig\<close>, \<open>find_pool_index\<close> returns \<open>-1\<close> exactly
  when the size exceeds 1024; otherwise it returns an index in \<open>0..7\<close> whose class boundary
  is at least the size, and every class before it is strictly smaller than the size (so it
  is the smallest class that fits).
\<close>

theorem C7_find_pool_index_smallest_class:
  assumes tbl: "small_block_sizes cfg = [8, 16, 32, 64, 128, 256, 512, 1024]"
  shows "(find_pool_index cfg sz = - 1 \<longleftrightarrow> 1024 < sz)
       \<and> (find_pool_index cfg sz \<noteq> - 1 \<longrightarrow>
            0 \<le> find_pool_index cfg sz \<and> find_pool_index cfg sz < 8
          \<and> sz \<le> small_block_sizes cfg ! nat (find_pool_index cfg sz)
          \<and> (\<forall>j < nat (find_pool_index cfg sz). small_block_sizes cfg ! j < sz))"
proof (intro conjI impI allI)
  show "find_pool_index cfg sz = - 1 \<longleftrightarrow> 1024 < sz"
    by (simp add: find_pool_index_default [OF tbl] word_less_nat_alt)
next
  assume "find_pool_index cfg sz \<noteq> - 1"
  then show "0 \<le> find_pool_index cfg sz" and "find_pool_index cfg sz < 8"
    using find_pool_index_range [of cfg sz] by auto
next
  assume "find_pool_index cfg sz \<noteq> - 1"
  then show "sz \<le> small_block_sizes cfg ! nat (find_pool_index cfg sz)"
    by (simp add: find_pool_index_default [OF tbl] tbl word_le_nat_alt split: if_splits)
next
  fix j
  assume "find_pool_index cfg sz \<noteq> - 1" and j: "j < nat (find_pool_index cfg sz)"
  have "j < 8"
    using j find_pool_index_range [of cfg sz] by auto
  then have "j = 0 \<or> j = 1 \<or> j = 2 \<or> j = 3 \<or> j = 4 \<or> j = 5 \<or> j = 6 \<or> j = 7"
    by (rule nat_less_8_cases)
  then show "small_block_sizes cfg ! j < sz"
    using j unfolding find_pool_index_default [OF tbl] tbl
    by (auto simp: word_le_nat_alt word_less_nat_alt split: if_splits)
qed

theorem C7_witness:
  "find_pool_index default_PoolConfig 100 = 4
   \<and> (100 :: size_t) \<le> small_block_sizes default_PoolConfig ! 4
   \<and> small_block_sizes default_PoolConfig ! 3 < (100 :: size_t)
   \<and> find_pool_index default_PoolConfig 1025 = - 1"
proof -
  have tbl: "small_block_sizes default_PoolConfig = [8, 16, 32, 64, 128, 256, 512, 1024]"
    by (simp add: default_PoolConfig_def)
  have a: "find_pool_index default_PoolConfig 100 = 4"
    by (simp add: find_pool_index_default [OF tbl])
  have b: "find_pool_index default_PoolConfig 1025 = - 1"
    by (simp add: find_pool_index_default [OF tbl])
  show ?thesis
    using C7_find_pool_index_smallest_class [OF tbl, of 100] a b by simp
qed

section \<open>Invalid requests\<close>

text \<open>
  C6. \<open>allocate(0)\<close> returns \<open>nullptr\<close>, and so does \<open>allocate\<close> of any size once the
  shutdown flag is set; in both cases the call returns at once, leaving the allocator, the
  thread cache and the heap as they were, and \<open>allocate\<close> has no other outcome than a
  pointer and a state.
\<close>

theorem C6_allocate_zero_or_shutdown:
  "allocate 0 s = (None, s) \<and> (shutdown_m s \<longrightarrow> allocate sz s = (None, s))"
  by (simp add: allocate_def)

theorem C6_witness:
  "shutdown_m ((new_machine 0 True 8 4096 8192)\<lparr>shutdown_m := True\<rparr>)
   \<and> allocate 64 ((new_machine 0 True 8 4096 8192)\<lparr>shutdown_m := True\<rparr>)
       = (None, (new_machine 0 True 8 4096 8192)\<lparr>shutdown_m := True\<rparr>)"
  using C6_allocate_zero_or_shutdown
          [of "(new_machine 0 True 8 4096 8192)\<lparr>shutdown_m := True\<rparr>" 64]
  by simp

section \<open>Frame lemmas\<close>

lemma get_tls_cache_stats:
  "get_tls_cache (s\<lparr>stats_m := st\<rparr>) =
     (fst (get_tls_cache s), (snd (get_tls_cache s))\<lparr>stats_m := st\<rparr>)"
  by (simp add: get_tls_cache_def Let_def)

lemma return_to_tls_stats:
  "return_to_tls i q (s\<lparr>stats_m := st\<rparr>) =
     (fst (return_to_tls i q s), (snd (return_to_tls i q s))\<lparr>stats_m := st\<rparr>)"
  by (simp add: return_to_tls_def get_tls_cache_stats Let_def split: prod.splits option.splits)

lemma return_to_tls_frame:
  "(snd (return_to_tls i q s))\<lparr>tls_cache := tls_cache s, tls_initialized := tls_initialized s\<rparr> = s"
  by (simp add: return_to_tls_def get_tls_cache_def Let_def split: prod.splits option.splits)

lemma read_header_stats [simp]:
  "read_header hs p (s\<lparr>stats_m := st\<rparr>) = read_header hs p s"
  by (simp add: read_header_def)


section \<open>The first allocation on a fresh allocator\<close>

lemma initialize_pools_nth:
  "i < 8 \<Longrightarrow> initialize_pools cfg ! i = Fixed_Size_Pool_ctor (small_block_sizes cfg ! i) (alignment cfg)"
  by (simp add: initialize_pools_def)

lemma length_initialize_pools [simp]: "length (initialize_pools cfg) = 8"
  by (simp add: initialize_pools_def)

lemma new_machine_fields:
  "config_m (new_machine mtm tls al base limit) =
     default_PoolConfig\<lparr>max_total_memory := mtm, enable_tls := tls, alignment := al\<rparr>"
  "stats_m (new_machine mtm tls al base limit) =
     \<lparr>total_allocated = 0, total_freed = 0, current_used = 0, current_free = 0,
      alloc_count = 0, free_count = 0, fragment_count = 0\<rparr>"
  "pools_m (new_machine mtm tls al base limit) =
     initialize_pools (default_PoolConfig\<lparr>max_total_memory := mtm, enable_tls := tls, alignment := al\<rparr>)"
  "shutdown_m (new_machine mtm tls al base limit) = False"
  "tls_cache (new_machine mtm tls al base limit) = None"
  "tls_initialized (new_machine mtm tls al base limit) = False"
  "headers (new_machine mtm tls al base limit) = Map.empty"
  "bytes (new_machine mtm tls al base limit) = (\<lambda>_. 0)"
  "heap_next (new_machine mtm tls al base limit) = base"
  "heap_limit (new_machine mtm tls al base limit) = limit"
  "freed (new_machine mtm tls al base limit) = []"
  by (simp_all add: new_machine_def Memory_Pool_ctor_def Let_def)


lemma allocate_from_tls_first_use:
  assumes "\<not> tls_initialized s" "0 \<le> k" "k < 8"
  shows "allocate_from_tls k s =
     (None, if enable_tls (config_m s)
            then s\<lparr>tls_cache := Some (new_Thread_Local_Cache\<lparr>cache_size := tls_cache_size (config_m s)\<rparr>),
                   tls_initialized := True\<rparr>
            else s)"
  using assms
  by (simp add: allocate_from_tls_def get_tls_cache_def Let_def new_Thread_Local_Cache_def)

lemma Fixed_Size_Pool_allocate_carve:
  assumes "free_blocks_m (pools_m s ! i) = []"
      and "heap_next s + unat (header_size (alignment_m (pools_m s ! i)) + block_size_m (pools_m s ! i)) \<le> heap_limit s"
  shows "Fixed_Size_Pool_allocate i s =
     (Some (heap_next s + unat (header_size (alignment_m (pools_m s ! i)))),
      s\<lparr>heap_next := heap_next s + unat (header_size (alignment_m (pools_m s ! i)) + block_size_m (pools_m s ! i)),
        headers := (headers s)(heap_next s \<mapsto>
           \<lparr>size_hdr = block_size_m (pools_m s ! i), block_size = block_size_m (pools_m s ! i),
            in_use = True, pool_ptr = Some i\<rparr>),
        pools_m := (pools_m s)[i := (pools_m s ! i)\<lparr>current_used_m := current_used_m (pools_m s ! i) + 1,
                                                  total_allocated_m := total_allocated_m (pools_m s ! i) + 1\<rparr>]\<rparr>)"
  using assms by (simp add: Fixed_Size_Pool_allocate_def malloc_def Let_def)

lemma Fixed_Size_Pool_allocate_exhausted:
  assumes "free_blocks_m (pools_m s ! i) = []"
      and "\<not> heap_next s + unat (header_size (alignment_m (pools_m s ! i)) + block_size_m (pools_m s ! i)) \<le> heap_limit s"
  shows "Fixed_Size_Pool_allocate i s = (None, s)"
  using assms by (simp add: Fixed_Size_Pool_allocate_def malloc_def Let_def)

lemma allocate_fresh_small:
  fixes mtm tls al base limit sz
  defines "m \<equiv> new_machine mtm tls al base limit"
  defines "i \<equiv> nat (find_pool_index (config_m m) sz)"
  defines "c \<equiv> small_block_sizes (config_m m) ! i"
  defines "hs \<equiv> header_size al"
  defines "bs \<equiv> (c + al - 1) AND NOT (al - 1)"
  assumes sz: "sz \<noteq> 0" "sz \<le> 1024"
      and fit: "base + unat (hs + bs) \<le> limit"
  shows "allocate sz m =
     (Some (base + unat hs),
      m\<lparr>stats_m := \<lparr>total_allocated = c, total_freed = 0, current_used = c, current_free = - c,
                    alloc_count = 1, free_count = 0, fragment_count = 0\<rparr>,
        pools_m := (pools_m m)[i := (Fixed_Size_Pool_ctor c al)\<lparr>current_used_m := 1, total_allocated_m := 1\<rparr>],
        tls_cache := (if tls then Some (new_Thread_Local_Cache\<lparr>cache_size := 16\<rparr>) else None),
        tls_initialized := tls,
        headers := [base \<mapsto> \<lparr>size_hdr = bs, block_size = bs, in_use = True, pool_ptr = Some i\<rparr>],
        heap_next := base + unat (hs + bs)\<rparr>)"
proof -
  let ?k = "find_pool_index (config_m m) sz"
  have tbl: "small_block_sizes (config_m m) = [8, 16, 32, 64, 128, 256, 512, 1024]"
    by (simp add: m_def new_machine_fields default_PoolConfig_def)
  have rng: "0 \<le> ?k" "?k < 8"
    using sz by (simp_all add: find_pool_index_default [OF tbl] word_le_nat_alt)
  then have i8: "i < 8" by (simp add: i_def)
  have P: "pools_m m ! i = Fixed_Size_Pool_ctor c al"
    using i8 by (simp add: m_def new_machine_fields initialize_pools_nth c_def)
  have nf: "stats_m m = \<lparr>total_allocated = 0, total_freed = 0, current_used = 0, current_free = 0,
      alloc_count = 0, free_count = 0, fragment_count = 0\<rparr>"
    "\<not> shutdown_m m" "tls_cache m = None" "\<not> tls_initialized m"
    "headers m = Map.empty" "heap_next m = base" "heap_limit m = limit"
    "enable_tls (config_m m) = tls" "tls_cache_size (config_m m) = 16"
    by (simp_all add: m_def new_machine_fields default_PoolConfig_def)
  let ?m1 = "m\<lparr>stats_m := (stats_m m)\<lparr>alloc_count := alloc_count (stats_m m) + 1\<rparr>\<rparr>"
  let ?m2 = "if tls then ?m1\<lparr>tls_cache := Some (new_Thread_Local_Cache\<lparr>cache_size := 16\<rparr>),
                   tls_initialized := True\<rparr> else ?m1"
  have t: "allocate_from_tls ?k ?m1 = (None, ?m2)"
    using rng nf by (simp add: allocate_from_tls_first_use)
  have P2: "pools_m ?m2 ! i = Fixed_Size_Pool_ctor c al" "heap_next ?m2 = base" "heap_limit ?m2 = limit"
    using P nf by simp_all
  have f: "Fixed_Size_Pool_allocate i ?m2 = (Some (base + unat hs),
      ?m2\<lparr>heap_next := base + unat (hs + bs),
        headers := (headers ?m2)(base \<mapsto> \<lparr>size_hdr = bs, block_size = bs, in_use = True, pool_ptr = Some i\<rparr>),
        pools_m := (pools_m ?m2)[i := (Fixed_Size_Pool_ctor c al)\<lparr>current_used_m := 1, total_allocated_m := 1\<rparr>]\<rparr>)"
    using fit
    by (subst Fixed_Size_Pool_allocate_carve)
       (simp_all only: P2, simp_all add: Fixed_Size_Pool_ctor_def hs_def bs_def)
  have a: "allocate sz m = (case allocate_from_tls ?k ?m1 of
              (None, s2) \<Rightarrow> (case Fixed_Size_Pool_allocate i s2 of
                  (None, s3) \<Rightarrow> (None, s3)
                | (Some p, s3) \<Rightarrow> (Some p, s3\<lparr>stats_m := (stats_m s3)\<lparr>total_allocated := total_allocated (stats_m s3) + c,
                                                         current_used := current_used (stats_m s3) + c,
                                                         current_free := current_free (stats_m s3) - c\<rparr>\<rparr>))
            | (Some p, s2) \<Rightarrow> (Some p, s2\<lparr>stats_m := (stats_m s2)\<lparr>total_allocated := total_allocated (stats_m s2) + c,
                                                    current_used := current_used (stats_m s2) + c\<rparr>\<rparr>))"
    using sz(1) rng(1) nf(2)
    by (simp add: allocate_def Let_def i_def c_def split: prod.splits option.splits)
  show ?thesis
    unfolding a t
    by (simp add: f nf)
qed


lemma allocate_fresh_small_exhausted:
  fixes mtm tls al base limit sz
  defines "m \<equiv> new_machine mtm tls al base limit"
  defines "i \<equiv> nat (find_pool_index (config_m m) sz)"
  defines "c \<equiv> small_block_sizes (config_m m) ! i"
  assumes sz: "sz \<noteq> 0" "sz \<le> 1024"
      and fit: "\<not> base + unat (header_size al + ((c + al - 1) AND NOT (al - 1))) \<le> limit"
  shows "fst (allocate sz m) = None"
proof -
  let ?k = "find_pool_index (config_m m) sz"
  have tbl: "small_block_sizes (config_m m) = [8, 16, 32, 64, 128, 256, 512, 1024]"
    by (simp add: m_def new_machine_fields default_PoolConfig_def)
  have rng: "0 \<le> ?k" "?k < 8"
    using sz by (simp_all add: find_pool_index_default [OF tbl] word_le_nat_alt)
  then have i8: "i < 8" by (simp add: i_def)
  have P: "pools_m m ! i = Fixed_Size_Pool_ctor c al"
    using i8 by (simp add: m_def new_machine_fields initialize_pools_nth c_def)
  have nf: "\<not> shutdown_m m" "\<not> tls_initialized m" "heap_next m = base" "heap_limit m = limit"
    by (simp_all add: m_def new_machine_fields)
  let ?m1 = "m\<lparr>stats_m := (stats_m m)\<lparr>alloc_count := alloc_count (stats_m m) + 1\<rparr>\<rparr>"
  obtain m2 where t: "allocate_from_tls ?k ?m1 = (None, m2)"
    and m2: "pools_m m2 = pools_m m" "heap_next m2 = base" "heap_limit m2 = limit"
    using rng nf by (simp add: allocate_from_tls_first_use)
  have f: "Fixed_Size_Pool_allocate i m2 = (None, m2)"
    using fit
    by (subst Fixed_Size_Pool_allocate_exhausted)
       (simp_all add: m2 P, simp_all add: Fixed_Size_Pool_ctor_def)
  show ?thesis
    using sz(1) rng(1) nf(1) t f
    by (simp add: allocate_def Let_def i_def)
qed

lemma class_size_cases:
  assumes "i < 8"
  shows "[8, 16, 32, 64, 128, 256, 512, 1024 :: size_t] ! i \<in> {8, 16, 32, 64, 128, 256, 512, 1024}"
  using nat_less_8_cases [OF assms] by auto


lemma header_size_8: "header_size 8 = 32"
  by (simp add: header_size_def sizeof_Memory_Block_Header_def)

lemma find_pool_index_fresh:
  "find_pool_index (config_m (new_machine mtm tls al base limit)) sz =
     (if unat sz \<le> 8 then 0 else if unat sz \<le> 16 then 1 else if unat sz \<le> 32 then 2
      else if unat sz \<le> 64 then 3 else if unat sz \<le> 128 then 4 else if unat sz \<le> 256 then 5
      else if unat sz \<le> 512 then 6 else if unat sz \<le> 1024 then 7 else - 1)"
  by (rule find_pool_index_default) (simp add: new_machine_fields default_PoolConfig_def)

lemma default_allocate_64:
  "allocate 64 default_machine =
     (Some 4128,
      default_machine
       \<lparr>stats_m := \<lparr>total_allocated = 64, total_freed = 0, current_used = 64, current_free = - 64,
                    alloc_count = 1, free_count = 0, fragment_count = 0\<rparr>,
        pools_m := (pools_m default_machine)[3 := (Fixed_Size_Pool_ctor 64 8)\<lparr>current_used_m := 1, total_allocated_m := 1\<rparr>],
        tls_cache := Some (new_Thread_Local_Cache\<lparr>cache_size := 16\<rparr>),
        tls_initialized := True,
        headers := [4096 \<mapsto> \<lparr>size_hdr = 64, block_size = 64, in_use = True, pool_ptr = Some 3\<rparr>],
        heap_next := 4192\<rparr>)"
proof -
  have k: "find_pool_index (config_m default_machine) 64 = 3"
    by (simp add: find_pool_index_fresh)
  have c: "small_block_sizes (config_m default_machine) ! 3 = 64"
    by (simp add: new_machine_fields default_PoolConfig_def)
  show ?thesis
    using allocate_fresh_small [of 64 4096 8 1073741824 True 1048576]
    by (simp add: k c header_size_8)
qed


lemma default_allocate_64_fields:
  "config_m (snd (allocate 64 default_machine)) = config_m default_machine"
  "stats_m (snd (allocate 64 default_machine)) =
     \<lparr>total_allocated = 64, total_freed = 0, current_used = 64, current_free = - 64,
      alloc_count = 1, free_count = 0, fragment_count = 0\<rparr>"
  "tls_cache (snd (allocate 64 default_machine)) = Some \<lparr>cache = replicate 8 [], cache_size = 16\<rparr>"
  "tls_initialized (snd (allocate 64 default_machine))"
  "headers (snd (allocate 64 default_machine)) =
     [4096 \<mapsto> \<lparr>size_hdr = 64, block_size = 64, in_use = True, pool_ptr = Some 3\<rparr>]"
  "heap_next (snd (allocate 64 default_machine)) = 4192"
  by (simp_all add: default_allocate_64 new_Thread_Local_Cache_def)

lemma default_config:
  "alignment (config_m default_machine) = 8"
  "enable_tls (config_m default_machine)"
  "small_block_sizes (config_m default_machine) = [8, 16, 32, 64, 128, 256, 512, 1024]"
  by (simp_all add: new_machine_fields default_PoolConfig_def)


text \<open>
  C9. On a fresh allocator every pool free list and the thread cache are empty and
  \<open>current_free\<close> is 0. A small request that succeeds is then served by a block newly
  obtained from \<open>malloc\<close> (its header is written at the address \<open>malloc\<close> returned and the
  pool counts one block carved), and \<open>current_free\<close> is decremented by the class size from
  0: it wraps to \<open>2^64\<close> minus the class size, at least \<open>2^64 - 1024\<close>.
\<close>

theorem C9_first_allocation_wraps_current_free:
  fixes mtm tls al base limit sz
  defines "m \<equiv> new_machine mtm tls al base limit"
  defines "i \<equiv> nat (find_pool_index (config_m m) sz)"
  defines "c \<equiv> small_block_sizes (config_m m) ! i"
  assumes sz: "sz \<noteq> 0" "sz \<le> 1024"
      and ok: "allocate sz m = (Some p, s1)"
  shows "current_free (stats_m m) = 0
       \<and> free_blocks_m (pools_m m ! i) = [] \<and> tls_cache m = None
       \<and> p = heap_next m + unat (header_size al)
       \<and> heap_next s1 = heap_next m + unat (header_size al + block_size_m (pools_m m ! i))
       \<and> headers m (heap_next m) = None
       \<and> headers s1 (heap_next m) =
             Some \<lparr>size_hdr = block_size_m (pools_m m ! i), block_size = block_size_m (pools_m m ! i),
                   in_use = True, pool_ptr = Some i\<rparr>
       \<and> total_allocated_m (pools_m s1 ! i) = 1
       \<and> current_free (stats_m s1) = 0 - c
       \<and> unat (current_free (stats_m s1)) = 2 ^ 64 - unat c
       \<and> 2 ^ 64 - 1024 \<le> unat (current_free (stats_m s1))"
proof -
  let ?k = "find_pool_index (config_m m) sz"
  let ?bs = "(c + al - 1) AND NOT (al - 1)"
  have tbl: "small_block_sizes (config_m m) = [8, 16, 32, 64, 128, 256, 512, 1024]"
    by (simp add: m_def new_machine_fields default_PoolConfig_def)
  have rng: "0 \<le> ?k" "?k < 8"
    using sz by (simp_all add: find_pool_index_default [OF tbl] word_le_nat_alt)
  then have i8: "i < 8" by (simp add: i_def)
  have P: "pools_m m ! i = Fixed_Size_Pool_ctor c al"
    using i8 by (simp add: m_def new_machine_fields initialize_pools_nth c_def)
  have fit: "base + unat (header_size al + ?bs) \<le> limit"
  proof (rule ccontr)
    assume "\<not> ?thesis"
    then have "fst (allocate sz m) = None"
      unfolding c_def i_def m_def by (rule allocate_fresh_small_exhausted [OF sz])
    with ok show False by simp
  qed
  note a = allocate_fresh_small [OF sz, of base al mtm tls limit, folded m_def, folded i_def, folded c_def, OF fit]
  have s1: "s1 = snd (allocate sz m)" and p: "p = the (fst (allocate sz m))"
    using ok by simp_all
  have c: "c \<in> {8, 16, 32, 64, 128, 256, 512, 1024}"
    unfolding c_def tbl by (rule class_size_cases [OF i8])
  have u: "unat (0 - c) = 2 ^ 64 - unat c" "2 ^ 64 - 1024 \<le> (2 ^ 64 - unat c :: nat)"
    using c by auto
  have nf: "current_free (stats_m m) = 0" "tls_cache m = None" "heap_next m = base" "headers m = Map.empty"
    by (simp_all add: m_def new_machine_fields)
  have P': "free_blocks_m (pools_m m ! i) = []" "block_size_m (pools_m m ! i) = ?bs"
    by (simp_all add: P Fixed_Size_Pool_ctor_def)
  have l: "length (pools_m m) = 8"
    by (simp add: m_def new_machine_fields)
  show ?thesis
    unfolding s1 p a
    using i8 u by (simp add: nf P' l)
qed

theorem C9_witness:
  "allocate 64 default_machine = (Some 4128, snd (allocate 64 default_machine))
   \<and> current_free (stats_m default_machine) = 0
   \<and> current_free (stats_m (snd (allocate 64 default_machine))) = - 64
   \<and> unat (current_free (stats_m (snd (allocate 64 default_machine)))) = 18446744073709551552"
proof -
  have k: "find_pool_index (config_m default_machine) 64 = 3"
    by (simp add: find_pool_index_fresh)
  have c: "small_block_sizes (config_m default_machine) ! 3 = 64"
    by (simp add: new_machine_fields default_PoolConfig_def)
  have h: "allocate 64 default_machine = (Some 4128, snd (allocate 64 default_machine))"
    by (simp add: default_allocate_64)
  show ?thesis
    using h C9_first_allocation_wraps_current_free [OF _ _ h]
    by (simp add: k c)
qed

section \<open>Deallocation into the thread cache\<close>

text \<open>
  C10. When \<open>deallocate\<close> is called on a block whose header names its pool and
  \<open>return_to_tls\<close> accepts it, the call succeeds and, apart from the thread cache itself,
  changes nothing but \<open>free_count\<close>, which grows by one: the block's header is the same
  as before (so \<open>in_use\<close> keeps its value), every pool (free list and counters) is
  unchanged, and the other statistics are unchanged.
\<close>

theorem C10_deallocate_into_thread_cache:
  assumes hdr: "read_header (header_size (alignment (config_m s))) p s = Some h"
      and own: "pool_ptr h = Some (nat (find_pool_index (config_m s) (block_size h)))"
      and idx: "0 \<le> find_pool_index (config_m s) (block_size h)"
      and acc: "fst (return_to_tls (find_pool_index (config_m s) (block_size h)) (Some p) s)"
  shows "\<exists>s'. deallocate (Some p) s = Inr s'
           \<and> s'\<lparr>tls_cache := tls_cache s, tls_initialized := tls_initialized s\<rparr>
               = s\<lparr>stats_m := (stats_m s)\<lparr>free_count := free_count (stats_m s) + 1\<rparr>\<rparr>
           \<and> read_header (header_size (alignment (config_m s'))) p s' = Some h
           \<and> headers s' = headers s
           \<and> pools_m s' = pools_m s
           \<and> stats_m s' = (stats_m s)\<lparr>free_count := free_count (stats_m s) + 1\<rparr>"
proof -
  let ?i = "find_pool_index (config_m s) (block_size h)"
  let ?st = "(stats_m s)\<lparr>free_count := free_count (stats_m s) + 1\<rparr>"
  let ?s' = "(snd (return_to_tls ?i (Some p) s))\<lparr>stats_m := ?st\<rparr>"
  have d: "deallocate (Some p) s = Inr ?s'"
    using hdr own idx acc
    by (simp add: deallocate_def Let_def return_to_tls_stats split: prod.splits)
  have cfg: "config_m ?s' = config_m s" and hd: "headers ?s' = headers s"
    and pl: "pools_m ?s' = pools_m s"
    by (simp_all add: return_to_tls_def get_tls_cache_def Let_def split: prod.splits option.splits)
  have fr: "?s'\<lparr>tls_cache := tls_cache s, tls_initialized := tls_initialized s\<rparr> = s\<lparr>stats_m := ?st\<rparr>"
    by (simp add: return_to_tls_def get_tls_cache_def Let_def split: prod.splits option.splits)
  have rh: "read_header (header_size (alignment (config_m ?s'))) p ?s' = Some h"
    using hdr by (simp add: read_header_def cfg hd del: read_header_stats split: if_splits)
  have st: "stats_m ?s' = ?st"
    by simp
  show ?thesis
    using d fr rh hd pl st by blast
qed

theorem C10_witness:
  "read_header (header_size (alignment (config_m (snd (allocate 64 default_machine))))) 4128
      (snd (allocate 64 default_machine))
     = Some \<lparr>size_hdr = 64, block_size = 64, in_use = True, pool_ptr = Some 3\<rparr>
   \<and> find_pool_index (config_m (snd (allocate 64 default_machine))) 64 = 3
   \<and> fst (return_to_tls 3 (Some 4128) (snd (allocate 64 default_machine)))
   \<and> (\<exists>s'. deallocate (Some 4128) (snd (allocate 64 default_machine)) = Inr s'
           \<and> headers s' 4096 = Some \<lparr>size_hdr = 64, block_size = 64, in_use = True, pool_ptr = Some 3\<rparr>
           \<and> pools_m s' = pools_m (snd (allocate 64 default_machine))
           \<and> stats_m s' = \<lparr>total_allocated = 64, total_freed = 0, current_used = 64,
                            current_free = - 64, alloc_count = 1, free_count = 1,
                            fragment_count = 0\<rparr>)"
proof -
  let ?s = "snd (allocate 64 default_machine)"
  let ?h = "\<lparr>size_hdr = 64, block_size = 64, in_use = True, pool_ptr = Some 3\<rparr>"
  have h: "read_header (header_size (alignment (config_m ?s))) 4128 ?s = Some ?h"
    by (simp add: default_allocate_64_fields default_config header_size_8 read_header_def)
  have k: "find_pool_index (config_m ?s) 64 = 3"
    by (simp add: default_allocate_64_fields find_pool_index_fresh)
  have own: "pool_ptr ?h = Some (nat (find_pool_index (config_m ?s) (block_size ?h)))"
    by (simp add: k)
  have idx: "0 \<le> find_pool_index (config_m ?s) (block_size ?h)"
    by (simp add: k)
  have acc': "fst (return_to_tls 3 (Some 4128) ?s)"
    by (simp add: return_to_tls_def get_tls_cache_def default_allocate_64_fields default_config)
  then have acc: "fst (return_to_tls (find_pool_index (config_m ?s) (block_size ?h)) (Some 4128) ?s)"
    by (simp add: k)
  show ?thesis
    using h k acc' C10_deallocate_into_thread_cache [OF h own idx acc]
    by (auto simp: default_allocate_64_fields)
qed


section \<open>Allocate, then deallocate\<close>


lemma return_to_tls_accept:
  assumes "tls_initialized s" "tls_cache s = Some c" "enable_tls (config_m s)" "0 \<le> k" "k < 8"
      and "length (cache c ! nat k) < unat (cache_size c)"
  shows "return_to_tls k (Some p) s =
           (True, s\<lparr>tls_cache := Some (c\<lparr>cache := (cache c)[nat k := cache c ! nat k @ [p]]\<rparr>)\<rparr>)"
  using assms by (simp add: return_to_tls_def get_tls_cache_def Let_def)




lemma list_update_Cons_numeral:
  "(x # xs)[numeral v := y] = x # xs[numeral v - 1 := y]"
  by (simp add: numeral_eq_Suc)

lemma replicate_8: "replicate 8 x = [x, x, x, x, x, x, x, x]"
  by (simp add: eval_nat_numeral)

lemma default_deallocate_64:
  "deallocate (Some 4128) (snd (allocate 64 default_machine)) =
     Inr ((snd (allocate 64 default_machine))
            \<lparr>stats_m := \<lparr>total_allocated = 64, total_freed = 0, current_used = 64,
                         current_free = - 64, alloc_count = 1, free_count = 1, fragment_count = 0\<rparr>,
             tls_cache := Some \<lparr>cache = [[], [], [], [4128], [], [], [], []], cache_size = 16\<rparr>\<rparr>)"
proof -
  let ?s = "snd (allocate 64 default_machine)"
  have k: "find_pool_index (config_m default_machine) 64 = 3"
    by (simp add: find_pool_index_fresh)
  have r: "return_to_tls 3 (Some 4128) ?s =
       (True, ?s\<lparr>tls_cache := Some \<lparr>cache = [[], [], [], [4128], [], [], [], []], cache_size = 16\<rparr>\<rparr>)"
    by (subst return_to_tls_accept [where c = "\<lparr>cache = replicate 8 [], cache_size = 16\<rparr>"])
       (simp_all add: default_allocate_64_fields default_config list_update_Cons_numeral replicate_8)
  show ?thesis
    by (simp add: deallocate_def Let_def default_allocate_64_fields default_config header_size_8
          read_header_def k return_to_tls_stats r)
qed


section \<open>Large requests\<close>

text \<open>On the large path \<open>allocate\<close> leaves the header store as it was, in every state:
  the address it returns is the one \<open>malloc\<close> gave, with nothing written before it.\<close>

lemma allocate_large_writes_no_header:
  assumes "find_pool_index (config_m s) sz = - 1"
  shows "headers (snd (allocate sz s)) = headers s
       \<and> (fst (allocate sz s) \<noteq> None \<longrightarrow> fst (allocate sz s) = Some (heap_next s))"
  using assms
  by (simp add: allocate_def Let_def malloc_def split: prod.splits)

text \<open>
  C2 (the code departs from the claim). For a request above 1024 bytes \<open>allocate\<close>
  calls \<open>malloc(size)\<close> and returns that address as it is: no room for a header is
  requested and none is written, so no header records the raw size with a null owner. On
  the default allocator, \<open>allocate(2000)\<close> returns the first heap address 4096, the
  header store is still empty, and \<open>deallocate\<close> of that address reads a header that does
  not exist.
\<close>

theorem C2_large_allocation_writes_no_header:
  "allocate 2000 default_machine =
     (Some 4096,
      default_machine\<lparr>stats_m := \<lparr>total_allocated = 2000, total_freed = 0, current_used = 2000,
                                   current_free = 0, alloc_count = 1, free_count = 0,
                                   fragment_count = 0\<rparr>,
                      heap_next := 6096\<rparr>)
   \<and> headers (snd (allocate 2000 default_machine)) = Map.empty
   \<and> read_header (header_size (alignment (config_m (snd (allocate 2000 default_machine))))) 4096
        (snd (allocate 2000 default_machine)) = None
   \<and> deallocate (Some 4096) (snd (allocate 2000 default_machine)) = Inl Undefined_Behaviour"
proof -
  have k: "find_pool_index (config_m default_machine) 2000 = - 1"
    by (simp add: find_pool_index_fresh)
  have a: "allocate 2000 default_machine =
     (Some 4096,
      default_machine\<lparr>stats_m := \<lparr>total_allocated = 2000, total_freed = 0, current_used = 2000,
                                   current_free = 0, alloc_count = 1, free_count = 0,
                                   fragment_count = 0\<rparr>,
                      heap_next := 6096\<rparr>)"
    by (simp add: allocate_def Let_def k malloc_def new_machine_fields(2-))
  show ?thesis
    unfolding a
    by (simp add: deallocate_def Let_def read_header_def new_machine_fields(2-) default_config header_size_8)
qed

section \<open>Deallocating twice\<close>

text \<open>
  C3 (the code departs from the claim). On the default allocator, after \<open>allocate(64)\<close>
  returned 4128, a first \<open>deallocate(4128)\<close> stashes the address in the thread cache; a
  second \<open>deallocate(4128)\<close> is not a no-op: \<open>free_count\<close> goes from 1 to 2 and the
  address is stashed a second time.
\<close>

theorem C3_double_deallocate_stashes_twice:
  "deallocate (Some 4128) (snd (allocate 64 default_machine)) =
     Inr ((snd (allocate 64 default_machine))
            \<lparr>stats_m := \<lparr>total_allocated = 64, total_freed = 0, current_used = 64,
                         current_free = - 64, alloc_count = 1, free_count = 1, fragment_count = 0\<rparr>,
             tls_cache := Some \<lparr>cache = [[], [], [], [4128], [], [], [], []], cache_size = 16\<rparr>\<rparr>)
   \<and> deallocate (Some 4128)
        ((snd (allocate 64 default_machine))
            \<lparr>stats_m := \<lparr>total_allocated = 64, total_freed = 0, current_used = 64,
                         current_free = - 64, alloc_count = 1, free_count = 1, fragment_count = 0\<rparr>,
             tls_cache := Some \<lparr>cache = [[], [], [], [4128], [], [], [], []], cache_size = 16\<rparr>\<rparr>) =
     Inr ((snd (allocate 64 default_machine))
            \<lparr>stats_m := \<lparr>total_allocated = 64, total_freed = 0, current_used = 64,
                         current_free = - 64, alloc_count = 1, free_count = 2, fragment_count = 0\<rparr>,
             tls_cache := Some \<lparr>cache = [[], [], [], [4128, 4128], [], [], [], []], cache_size = 16\<rparr>\<rparr>)"
proof -
  let ?s = "snd (allocate 64 default_machine)"
  let ?c = "\<lparr>cache = [[], [], [], [4128], [], [], [], []], cache_size = 16\<rparr>"
  have k: "find_pool_index (config_m default_machine) 64 = 3"
    by (simp add: find_pool_index_fresh)
  have r: "return_to_tls 3 (Some 4128) (?s\<lparr>tls_cache := Some ?c\<rparr>) =
       (True, ?s\<lparr>tls_cache := Some \<lparr>cache = [[], [], [], [4128, 4128], [], [], [], []], cache_size = 16\<rparr>\<rparr>)"
    by (subst return_to_tls_accept [where c = ?c])
       (simp_all add: default_allocate_64_fields default_config list_update_Cons_numeral replicate_8)
  have "deallocate (Some 4128) (?s\<lparr>stats_m := \<lparr>total_allocated = 64, total_freed = 0, current_used = 64,
                         current_free = - 64, alloc_count = 1, free_count = 1, fragment_count = 0\<rparr>,
             tls_cache := Some ?c\<rparr>) =
     Inr (?s\<lparr>stats_m := \<lparr>total_allocated = 64, total_freed = 0, current_used = 64,
                         current_free = - 64, alloc_count = 1, free_count = 2, fragment_count = 0\<rparr>,
             tls_cache := Some \<lparr>cache = [[], [], [], [4128, 4128], [], [], [], []], cache_size = 16\<rparr>\<rparr>)"
    by (simp add: deallocate_def Let_def default_allocate_64_fields default_config header_size_8
          read_header_def k return_to_tls_stats r)
  then show ?thesis
    by (simp add: default_deallocate_64)
qed


section \<open>What allocate changes, and where its result comes from\<close>

lemma read_header_cong:
  "headers s' = headers s \<Longrightarrow> read_header hs p s' = read_header hs p s"
  by (simp add: read_header_def)

lemma malloc_None: "malloc n s = (None, s') \<Longrightarrow> s' = s"
  by (simp add: malloc_def split: if_splits)

lemma Fixed_Size_Pool_allocate_None:
  "Fixed_Size_Pool_allocate i s = (None, s') \<Longrightarrow> s' = s"
  by (auto simp: Fixed_Size_Pool_allocate_def Let_def malloc_def split: list.splits if_splits)

lemma get_tls_cache_frame:
  "get_tls_cache s = (r, s') \<Longrightarrow>
     s' = s \<or> s' = s\<lparr>tls_cache := Some (new_Thread_Local_Cache\<lparr>cache_size := tls_cache_size (config_m s)\<rparr>),
                       tls_initialized := True\<rparr>"
  by (auto simp: get_tls_cache_def Let_def split: if_splits)

lemma allocate_from_tls_None:
  "allocate_from_tls k s = (None, s') \<Longrightarrow>
     s' = s \<or> s' = s\<lparr>tls_cache := Some (new_Thread_Local_Cache\<lparr>cache_size := tls_cache_size (config_m s)\<rparr>),
                       tls_initialized := True\<rparr>"
  by (auto simp: allocate_from_tls_def Let_def split: prod.splits option.splits if_splits
           dest: get_tls_cache_frame)

lemma allocate_None_frame:
  assumes "allocate n s = (None, s')"
  shows "headers s' = headers s \<and> bytes s' = bytes s \<and> freed s' = freed s
       \<and> pools_m s' = pools_m s \<and> heap_next s' = heap_next s \<and> heap_limit s' = heap_limit s
       \<and> config_m s' = config_m s \<and> shutdown_m s' = shutdown_m s
       \<and> (tls_cache s' = tls_cache s
           \<or> tls_cache s' = Some (new_Thread_Local_Cache\<lparr>cache_size := tls_cache_size (config_m s)\<rparr>))"
proof (cases "shutdown_m s \<or> n = 0")
  case True
  with assms show ?thesis by (simp add: allocate_def)
next
  case False
  let ?s1 = "s\<lparr>stats_m := (stats_m s)\<lparr>alloc_count := alloc_count (stats_m s) + 1\<rparr>\<rparr>"
  let ?k = "find_pool_index (config_m s) n"
  show ?thesis
  proof (cases "0 \<le> ?k")
    case small: True
    obtain r s2 where t: "allocate_from_tls ?k ?s1 = (r, s2)"
      by (cases "allocate_from_tls ?k ?s1")
    have r: "r = None"
      using assms False small t by (auto simp: allocate_def Let_def split: option.splits prod.splits)
    obtain r3 s3 where f: "Fixed_Size_Pool_allocate (nat ?k) s2 = (r3, s3)"
      by (cases "Fixed_Size_Pool_allocate (nat ?k) s2")
    have r3: "r3 = None" and s': "s' = s3"
      using assms False small t r f by (auto simp: allocate_def Let_def split: option.splits prod.splits)
    have "s3 = s2"
      using f r3 by (auto dest: Fixed_Size_Pool_allocate_None)
    with s' allocate_from_tls_None [OF t [unfolded r]] show ?thesis
      by auto
  next
    case large: False
    then show ?thesis
      using assms False
      by (auto simp: allocate_def Let_def malloc_def split: option.splits prod.splits if_splits)
  qed
qed

lemma allocate_from_tls_frame:
  "allocate_from_tls k s = (r, s') \<Longrightarrow>
     bytes s' = bytes s \<and> config_m s' = config_m s \<and> headers s' = headers s
   \<and> pools_m s' = pools_m s \<and> heap_next s' = heap_next s \<and> heap_limit s' = heap_limit s
   \<and> freed s' = freed s \<and> stats_m s' = stats_m s \<and> shutdown_m s' = shutdown_m s"
  by (auto simp: allocate_from_tls_def get_tls_cache_def Let_def
           split: prod.splits option.splits if_splits)

lemma Fixed_Size_Pool_allocate_frame:
  "Fixed_Size_Pool_allocate i s = (r, s') \<Longrightarrow>
     bytes s' = bytes s \<and> config_m s' = config_m s \<and> heap_limit s' = heap_limit s
   \<and> freed s' = freed s \<and> stats_m s' = stats_m s \<and> shutdown_m s' = shutdown_m s
   \<and> tls_cache s' = tls_cache s \<and> tls_initialized s' = tls_initialized s"
  by (auto simp: Fixed_Size_Pool_allocate_def malloc_def Let_def
           split: list.splits prod.splits option.splits if_splits)

lemma allocate_frame:
  assumes "allocate n s = (r, s')"
  shows "bytes s' = bytes s \<and> config_m s' = config_m s \<and> heap_limit s' = heap_limit s
       \<and> freed s' = freed s \<and> shutdown_m s' = shutdown_m s"
proof (cases "shutdown_m s \<or> n = 0")
  case True
  with assms show ?thesis by (simp add: allocate_def)
next
  case False
  let ?s1 = "s\<lparr>stats_m := (stats_m s)\<lparr>alloc_count := alloc_count (stats_m s) + 1\<rparr>\<rparr>"
  let ?k = "find_pool_index (config_m s) n"
  show ?thesis
  proof (cases "0 \<le> ?k")
    case small: True
    obtain r2 s2 where t: "allocate_from_tls ?k ?s1 = (r2, s2)"
      by (cases "allocate_from_tls ?k ?s1")
    obtain r3 s3 where f: "Fixed_Size_Pool_allocate (nat ?k) s2 = (r3, s3)"
      by (cases "Fixed_Size_Pool_allocate (nat ?k) s2")
    note fr2 = allocate_from_tls_frame [OF t] and fr3 = Fixed_Size_Pool_allocate_frame [OF f]
    have "s' = s3 \<or> (\<exists>st. s' = s3\<lparr>stats_m := st\<rparr>) \<or> (\<exists>st. s' = s2\<lparr>stats_m := st\<rparr>)"
      using assms False small t f
      by (auto simp: allocate_def Let_def split: option.splits)
    then show ?thesis
      using fr2 fr3 by auto
  next
    case large: False
    then show ?thesis
      using assms False
      by (auto simp: allocate_def Let_def malloc_def split: option.splits prod.splits if_splits)
  qed
qed


lemma allocate_from_tls_Some:
  assumes "allocate_from_tls k s = (Some q, s')"
  shows "\<exists>c. tls_cache s = Some c \<and> 0 \<le> k \<and> k < 8 \<and> q \<in> set (cache c ! nat k)"
proof -
  obtain c s2 where g: "get_tls_cache s = (Some c, s2)"
    using assms by (cases "get_tls_cache s") (auto simp: allocate_from_tls_def split: option.splits)
  have k: "0 \<le> k" "k < 8" and row: "cache c ! nat k \<noteq> []" and q: "q = last (cache c ! nat k)"
    using assms g by (auto simp: allocate_from_tls_def Let_def split: if_splits)
  have "tls_cache s = Some c"
  proof (rule ccontr)
    assume "tls_cache s \<noteq> Some c"
    with g have "c = new_Thread_Local_Cache\<lparr>cache_size := tls_cache_size (config_m s)\<rparr>"
      by (auto simp: get_tls_cache_def Let_def split: if_splits)
    with row k show False
      by (simp add: new_Thread_Local_Cache_def)
  qed
  with k row q show ?thesis by auto
qed

lemma Fixed_Size_Pool_allocate_Some:
  assumes "Fixed_Size_Pool_allocate i s = (Some q, s')"
  shows "q \<in> set (free_blocks_m (pools_m s ! i)) \<or> heap_next s \<le> q"
  using assms
  by (auto simp: Fixed_Size_Pool_allocate_def malloc_def Let_def
           split: list.splits prod.splits option.splits if_splits)

lemma allocate_Some_source:
  assumes a: "allocate n s = (Some q, s')"
  shows "(\<exists>c k. tls_cache s = Some c \<and> k < 8 \<and> q \<in> set (cache c ! k))
       \<or> (\<exists>i < 8. q \<in> set (free_blocks_m (pools_m s ! i)))
       \<or> heap_next s \<le> q"
proof -
  have ns: "\<not> (shutdown_m s \<or> n = 0)"
    using a by (auto simp: allocate_def)
  let ?s1 = "s\<lparr>stats_m := (stats_m s)\<lparr>alloc_count := alloc_count (stats_m s) + 1\<rparr>\<rparr>"
  let ?k = "find_pool_index (config_m s) n"
  show ?thesis
  proof (cases "0 \<le> ?k")
    case small: True
    have k8: "nat ?k < 8"
      using small find_pool_index_range [of "config_m s" n] by auto
    obtain r2 s2 where t: "allocate_from_tls ?k ?s1 = (r2, s2)"
      by (cases "allocate_from_tls ?k ?s1")
    show ?thesis
    proof (cases r2)
      case (Some q')
      with a ns small t have "q' = q"
        by (auto simp: allocate_def Let_def)
      with allocate_from_tls_Some [OF t [unfolded Some]] k8 show ?thesis
        by auto
    next
      case None
      obtain s3 where f: "Fixed_Size_Pool_allocate (nat ?k) s2 = (Some q, s3)"
        using a ns small t None
        by (cases "Fixed_Size_Pool_allocate (nat ?k) s2")
           (auto simp: allocate_def Let_def split: option.splits)
      from allocate_from_tls_frame [OF t] Fixed_Size_Pool_allocate_Some [OF f] k8
      show ?thesis by auto
    qed
  next
    case large: False
    then show ?thesis
      using a ns
      by (auto simp: allocate_def Let_def malloc_def split: option.splits prod.splits if_splits)
  qed
qed

lemma allocate_avoids_allocated_block:
  assumes a: "allocate n s = (Some q, s')" and wf: "well_formed s" and al: "allocated_block s p"
  shows "q \<noteq> p"
proof
  assume "q = p"
  from allocate_Some_source [OF a] show False
  proof (elim disjE exE conjE)
    fix c k
    assume "tls_cache s = Some c" "k < 8" "q \<in> set (cache c ! k)"
    moreover from this wf have "cache c ! k \<in> set (cache c)"
      by (simp add: well_formed_def)
    ultimately show False
      using al \<open>q = p\<close> by (auto simp: allocated_block_def)
  next
    fix i
    assume "i < 8" "q \<in> set (free_blocks_m (pools_m s ! i))"
    moreover from this wf have "pools_m s ! i \<in> set (pools_m s)"
      by (simp add: well_formed_def)
    ultimately show False
      using al \<open>q = p\<close> by (auto simp: allocated_block_def)
  next
    assume "heap_next s \<le> q"
    with al \<open>q = p\<close> show False
      by (simp add: allocated_block_def)
  qed
qed

lemma map_update_same: "(map f xs)[i := f (xs ! i)] = map f xs"
  by (metis list_update_id map_update)

lemma Fixed_Size_Pool_allocate_keeps:
  assumes "Fixed_Size_Pool_allocate i s = (r, s')"
  shows "(headers s a \<noteq> None \<longrightarrow> headers s' a \<noteq> None)
       \<and> map alignment_m (pools_m s') = map alignment_m (pools_m s)"
  using assms
  by (auto simp: Fixed_Size_Pool_allocate_def malloc_def Let_def map_update map_update_same
           split: list.splits prod.splits option.splits if_splits)

lemma allocate_keeps:
  assumes "allocate n s = (r, s')"
  shows "(headers s a \<noteq> None \<longrightarrow> headers s' a \<noteq> None)
       \<and> map alignment_m (pools_m s') = map alignment_m (pools_m s)"
proof (cases "shutdown_m s \<or> n = 0")
  case True
  with assms show ?thesis by (simp add: allocate_def)
next
  case False
  let ?s1 = "s\<lparr>stats_m := (stats_m s)\<lparr>alloc_count := alloc_count (stats_m s) + 1\<rparr>\<rparr>"
  let ?k = "find_pool_index (config_m s) n"
  show ?thesis
  proof (cases "0 \<le> ?k")
    case small: True
    obtain r2 s2 where t: "allocate_from_tls ?k ?s1 = (r2, s2)"
      by (cases "allocate_from_tls ?k ?s1")
    obtain r3 s3 where f: "Fixed_Size_Pool_allocate (nat ?k) s2 = (r3, s3)"
      by (cases "Fixed_Size_Pool_allocate (nat ?k) s2")
    note fr2 = allocate_from_tls_frame [OF t] and fr3 = Fixed_Size_Pool_allocate_keeps [OF f, of a]
    have "s' = s3 \<or> (\<exists>st. s' = s3\<lparr>stats_m := st\<rparr>) \<or> (\<exists>st. s' = s2\<lparr>stats_m := st\<rparr>)"
      using assms False small t f
      by (auto simp: allocate_def Let_def split: option.splits)
    then show ?thesis
      using fr2 fr3 by auto
  next
    case large: False
    then show ?thesis
      using assms False
      by (auto simp: allocate_def Let_def malloc_def split: option.splits prod.splits if_splits)
  qed
qed

lemma return_to_tls_frame_fields:
  "return_to_tls k q s = (b, s') \<Longrightarrow>
     bytes s' = bytes s \<and> config_m s' = config_m s \<and> headers s' = headers s
   \<and> pools_m s' = pools_m s \<and> stats_m s' = stats_m s"
  by (auto simp: return_to_tls_def get_tls_cache_def Let_def
           split: prod.splits option.splits if_splits)

lemma Fixed_Size_Pool_deallocate_ok:
  assumes "read_header (header_size (alignment_m (pools_m s ! i))) p s = Some h"
  shows "\<exists>s'. Fixed_Size_Pool_deallocate i (Some p) s = Inr s' \<and> bytes s' = bytes s"
  using assms by (auto simp: Fixed_Size_Pool_deallocate_def Let_def)

lemma deallocate_ok:
  assumes h: "read_header (header_size (alignment (config_m s))) p s = Some h"
      and al: "\<forall>i < 8. alignment_m (pools_m s ! i) = alignment (config_m s)"
  shows "\<exists>s'. deallocate (Some p) s = Inr s' \<and> bytes s' = bytes s"
proof -
  let ?s1 = "s\<lparr>stats_m := (stats_m s)\<lparr>free_count := free_count (stats_m s) + 1\<rparr>\<rparr>"
  let ?k = "find_pool_index (config_m s) (block_size h)"
  show ?thesis
  proof (cases "pool_ptr h \<noteq> None \<and> 0 \<le> ?k \<and> pool_ptr h = Some (nat ?k)")
    case True
    then have k8: "nat ?k < 8"
      using find_pool_index_range [of "config_m s" "block_size h"] by auto
    obtain b s2 where r: "return_to_tls ?k (Some p) ?s1 = (b, s2)"
      by (cases "return_to_tls ?k (Some p) ?s1")
    note fr = return_to_tls_frame_fields [OF r]
    have "read_header (header_size (alignment_m (pools_m s2 ! nat ?k))) p s2
            = read_header (header_size (alignment_m (pools_m s2 ! nat ?k))) p s"
      by (rule read_header_cong) (simp add: fr)
    then have "read_header (header_size (alignment_m (pools_m s2 ! nat ?k))) p s2 = Some h"
      using h al k8 fr by simp
    from Fixed_Size_Pool_deallocate_ok [OF this]
    obtain s3 where f: "Fixed_Size_Pool_deallocate (nat ?k) (Some p) s2 = Inr s3"
      and b3: "bytes s3 = bytes s2" by blast
    show ?thesis
      using h True r f b3 fr by (cases b) (auto simp: deallocate_def Let_def)
  next
    case False
    with h show ?thesis
      by (auto simp: deallocate_def Let_def free_def)
  qed
qed

lemma memcpy_fields:
  "config_m (memcpy dst src n s) = config_m s"
  "headers (memcpy dst src n s) = headers s"
  "pools_m (memcpy dst src n s) = pools_m s"
  by (simp_all add: memcpy_def)

lemma memcpy_bytes:
  "k < n \<Longrightarrow> bytes (memcpy dst src n s) (dst + k) = bytes s (src + k)"
  by (simp add: memcpy_def)

section \<open>Worked runs used by the examples below\<close>

lemma allocate_from_tls_miss:
  assumes "tls_initialized s" "tls_cache s = Some c" "0 \<le> k" "k < 8" "cache c ! nat k = []"
  shows "allocate_from_tls k s = (None, s)"
  using assms by (simp add: allocate_from_tls_def get_tls_cache_def Let_def)

lemma allocate_pool_carve:
  assumes ns: "\<not> shutdown_m s" "n \<noteq> 0"
      and k: "find_pool_index (config_m s) n = k" "0 \<le> k" "k < 8"
      and tls: "tls_initialized s" "tls_cache s = Some c" "cache c ! nat k = []"
      and fl: "free_blocks_m (pools_m s ! nat k) = []"
  shows "fst (allocate n s) =
     (if heap_next s + unat (header_size (alignment_m (pools_m s ! nat k)) + block_size_m (pools_m s ! nat k))
           \<le> heap_limit s
      then Some (heap_next s + unat (header_size (alignment_m (pools_m s ! nat k))))
      else None)"
proof -
  let ?s1 = "s\<lparr>stats_m := (stats_m s)\<lparr>alloc_count := alloc_count (stats_m s) + 1\<rparr>\<rparr>"
  have t: "allocate_from_tls k ?s1 = (None, ?s1)"
    using tls k by (intro allocate_from_tls_miss [where c = c]) simp_all
  show ?thesis
  proof (cases "heap_next s + unat (header_size (alignment_m (pools_m s ! nat k)) + block_size_m (pools_m s ! nat k))
           \<le> heap_limit s")
    case True
    then have "fst (Fixed_Size_Pool_allocate (nat k) ?s1)
                 = Some (heap_next s + unat (header_size (alignment_m (pools_m s ! nat k))))"
      using fl by (subst Fixed_Size_Pool_allocate_carve) simp_all
    then show ?thesis
      using ns k True t
      by (auto simp: allocate_def Let_def split: prod.splits option.splits)
  next
    case False
    then have "Fixed_Size_Pool_allocate (nat k) ?s1 = (None, ?s1)"
      using fl by (subst Fixed_Size_Pool_allocate_exhausted) simp_all
    then show ?thesis
      using ns k False t
      by (auto simp: allocate_def Let_def split: prod.splits option.splits)
  qed
qed

lemma fresh_allocate_5:
  assumes "4136 \<le> limit"
  shows "allocate 5 (new_machine 1073741824 True 8 4096 limit) =
     (Some 4128,
      (new_machine 1073741824 True 8 4096 limit)
       \<lparr>stats_m := \<lparr>total_allocated = 8, total_freed = 0, current_used = 8, current_free = - 8,
                    alloc_count = 1, free_count = 0, fragment_count = 0\<rparr>,
        pools_m := (pools_m (new_machine 1073741824 True 8 4096 limit))
                     [0 := (Fixed_Size_Pool_ctor 8 8)\<lparr>current_used_m := 1, total_allocated_m := 1\<rparr>],
        tls_cache := Some (new_Thread_Local_Cache\<lparr>cache_size := 16\<rparr>),
        tls_initialized := True,
        headers := [4096 \<mapsto> \<lparr>size_hdr = 8, block_size = 8, in_use = True, pool_ptr = Some 0\<rparr>],
        heap_next := 4136\<rparr>)"
proof -
  have k: "find_pool_index (config_m (new_machine 1073741824 True 8 4096 limit)) 5 = 0"
    by (simp add: find_pool_index_fresh)
  have c: "small_block_sizes (config_m (new_machine 1073741824 True 8 4096 limit)) ! 0 = 8"
    by (simp add: new_machine_fields default_PoolConfig_def)
  show ?thesis
    using allocate_fresh_small [of 5 4096 8 1073741824 True limit] assms
    by (simp add: k c header_size_8)
qed

lemma fresh_allocate_5_fields:
  assumes "4136 \<le> limit"
  defines "s \<equiv> snd (allocate 5 (new_machine 1073741824 True 8 4096 limit))"
  shows "config_m s = config_m (new_machine 1073741824 True 8 4096 limit)"
    "\<not> shutdown_m s"
    "pools_m s = (initialize_pools (config_m (new_machine 1073741824 True 8 4096 limit)))
                     [0 := (Fixed_Size_Pool_ctor 8 8)\<lparr>current_used_m := 1, total_allocated_m := 1\<rparr>]"
    "tls_cache s = Some \<lparr>cache = [[], [], [], [], [], [], [], []], cache_size = 16\<rparr>"
    "tls_initialized s"
    "headers s = [4096 \<mapsto> \<lparr>size_hdr = 8, block_size = 8, in_use = True, pool_ptr = Some 0\<rparr>]"
    "heap_next s = 4136" "heap_limit s = limit"
  unfolding s_def
  by (simp_all add: fresh_allocate_5 [OF assms(1)] new_machine_fields new_Thread_Local_Cache_def replicate_8)

lemma fresh_config:
  "alignment (config_m (new_machine mtm tls al base limit)) = al"
  "enable_tls (config_m (new_machine mtm tls al base limit)) = tls"
  "small_block_sizes (config_m (new_machine mtm tls al base limit)) = [8, 16, 32, 64, 128, 256, 512, 1024]"
  by (simp_all add: new_machine_fields default_PoolConfig_def)

lemma fresh_allocate_5_then_100:
  "fst (allocate 100 (snd (allocate 5 (new_machine 1073741824 True 8 4096 4140)))) = None"
proof -
  let ?s = "snd (allocate 5 (new_machine 1073741824 True 8 4096 4140))"
  note f = fresh_allocate_5_fields [of 4140, simplified]
  show ?thesis
    by (subst allocate_pool_carve [where k = 4 and c = "\<lparr>cache = [[], [], [], [], [], [], [], []], cache_size = 16\<rparr>"])
       (simp_all add: f find_pool_index_fresh initialize_pools_nth fresh_config
          Fixed_Size_Pool_ctor_def header_size_8)
qed

lemma default_allocate_5_then_3:
  "fst (allocate 3 (snd (allocate 5 default_machine))) = Some 4168"
proof -
  let ?s = "snd (allocate 5 default_machine)"
  note f = fresh_allocate_5_fields [of 1048576, simplified]
  show ?thesis
    by (subst allocate_pool_carve [where k = 0 and c = "\<lparr>cache = [[], [], [], [], [], [], [], []], cache_size = 16\<rparr>"])
       (simp_all add: f find_pool_index_fresh initialize_pools_nth fresh_config
          Fixed_Size_Pool_ctor_def header_size_8)
qed

lemma initialize_pools_set:
  "P \<in> set (initialize_pools cfg) \<Longrightarrow> alignment_m P = alignment cfg \<and> free_blocks_m P = []"
  by (auto simp: initialize_pools_def Fixed_Size_Pool_ctor_def)


lemma default_allocate_5_header:
  "read_header (header_size (alignment (config_m (snd (allocate 5 default_machine))))) 4128
      (snd (allocate 5 default_machine))
     = Some \<lparr>size_hdr = 8, block_size = 8, in_use = True, pool_ptr = Some 0\<rparr>"
  by (simp add: fresh_allocate_5_fields [of 1048576, simplified] fresh_config header_size_8
        read_header_def)

lemma default_allocate_5_well_formed:
  "well_formed (snd (allocate 5 default_machine))"
  "allocated_block (snd (allocate 5 default_machine)) 4128"
  "\<forall>i < 8. alignment_m (pools_m (snd (allocate 5 default_machine)) ! i)
            = alignment (config_m (snd (allocate 5 default_machine)))"
  "length (pools_m (snd (allocate 5 default_machine))) = 8"
proof -
  let ?s = "snd (allocate 5 default_machine)"
  note f = fresh_allocate_5_fields [of 1048576, simplified]
  have P: "alignment_m P = 8 \<and> free_blocks_m P = []" if "P \<in> set (pools_m ?s)" for P
  proof -
    from that have "P = (Fixed_Size_Pool_ctor 8 8)\<lparr>current_used_m := 1, total_allocated_m := 1\<rparr>
        \<or> P \<in> set (initialize_pools (config_m default_machine))"
      using set_update_subset_insert [of "initialize_pools (config_m default_machine)" 0]
      by (auto simp: f)
    then show ?thesis
      by (auto simp: Fixed_Size_Pool_ctor_def fresh_config dest: initialize_pools_set)
  qed
  show wf: "well_formed ?s"
    using P by (simp add: well_formed_def f fresh_config)
  show "allocated_block ?s 4128"
    using P by (simp add: allocated_block_def f)
  show "length (pools_m ?s) = 8"
    by (simp add: f)
  then show "\<forall>i < 8. alignment_m (pools_m ?s ! i) = alignment (config_m ?s)"
    using P by (simp add: f fresh_config)
qed

text \<open>What the second \<open>deallocate\<close> of section ``Deallocating twice'' leads to: with the
  address stashed twice, the next two \<open>allocate(64)\<close> calls both return 4128, so two live
  allocations share one block.\<close>

lemma allocate_tls_hit:
  assumes ns: "\<not> shutdown_m s" "n \<noteq> 0"
      and k: "find_pool_index (config_m s) n = k" "0 \<le> k" "k < 8"
      and tls: "enable_tls (config_m s)" "tls_initialized s" "tls_cache s = Some c"
               "cache c ! nat k \<noteq> []"
  shows "allocate n s =
     (Some (last (cache c ! nat k)),
      s\<lparr>stats_m := (stats_m s)
           \<lparr>alloc_count := alloc_count (stats_m s) + 1,
            total_allocated := total_allocated (stats_m s) + small_block_sizes (config_m s) ! nat k,
            current_used := current_used (stats_m s) + small_block_sizes (config_m s) ! nat k\<rparr>,
        tls_cache := Some (c\<lparr>cache := (cache c)[nat k := butlast (cache c ! nat k)]\<rparr>)\<rparr>)"
  using assms
  by (simp add: allocate_def allocate_from_tls_def get_tls_cache_def Let_def)

lemma double_deallocate_aliases:
  fixes s3 :: machine
  defines "s3 \<equiv> (snd (allocate 64 default_machine))
            \<lparr>stats_m := \<lparr>total_allocated = 64, total_freed = 0, current_used = 64,
                         current_free = - 64, alloc_count = 1, free_count = 2, fragment_count = 0\<rparr>,
             tls_cache := Some \<lparr>cache = [[], [], [], [4128, 4128], [], [], [], []], cache_size = 16\<rparr>\<rparr>"
  shows "fst (allocate 64 s3) = Some 4128 \<and> fst (allocate 64 (snd (allocate 64 s3))) = Some 4128"
proof -
  note f = default_allocate_64_fields
  have a: "allocate 64 s3 = (Some 4128,
      s3\<lparr>stats_m := \<lparr>total_allocated = 128, total_freed = 0, current_used = 128,
                         current_free = - 64, alloc_count = 2, free_count = 2, fragment_count = 0\<rparr>,
          tls_cache := Some \<lparr>cache = [[], [], [], [4128], [], [], [], []], cache_size = 16\<rparr>\<rparr>)"
    by (subst allocate_tls_hit [where k = 3 and c = "\<lparr>cache = [[], [], [], [4128, 4128], [], [], [], []], cache_size = 16\<rparr>"])
       (simp_all add: s3_def f find_pool_index_fresh fresh_config list_update_Cons_numeral
          allocate_frame [of 64 default_machine "fst (allocate 64 default_machine)", simplified]
          new_machine_fields(2-))
  have b: "fst (allocate 64 (s3\<lparr>stats_m := \<lparr>total_allocated = 128, total_freed = 0, current_used = 128,
                         current_free = - 64, alloc_count = 2, free_count = 2, fragment_count = 0\<rparr>,
          tls_cache := Some \<lparr>cache = [[], [], [], [4128], [], [], [], []], cache_size = 16\<rparr>\<rparr>)) = Some 4128"
    by (subst allocate_tls_hit [where k = 3 and c = "\<lparr>cache = [[], [], [], [4128], [], [], [], []], cache_size = 16\<rparr>"])
       (simp_all add: s3_def f find_pool_index_fresh fresh_config list_update_Cons_numeral
          allocate_frame [of 64 default_machine "fst (allocate 64 default_machine)", simplified]
          new_machine_fields(2-))
  show ?thesis
    by (simp add: a b)
qed

section \<open>Reallocation\<close>

lemma reallocate_moves:
  assumes hdr: "read_header (header_size (alignment (config_m s))) p s = Some h"
      and out: "\<not> (new_size \<le> size_hdr h \<and> size_hdr h div 2 < new_size)"
      and a: "allocate new_size s = (Some q, s1)"
      and al: "\<forall>i < 8. alignment_m (pools_m s ! i) = alignment (config_m s)"
      and len: "length (pools_m s) = 8"
  shows "\<exists>s3. reallocate (Some p) new_size s = Inr (Some q, s3)
            \<and> (\<forall>k < unat (min (size_hdr h) new_size). bytes s3 (q + k) = bytes s (p + k))"
proof -
  let ?n = "unat (if size_hdr h < new_size then size_hdr h else new_size)"
  let ?s2 = "memcpy q p ?n s1"
  note fr = allocate_frame [OF a]
  have n: "?n = unat (min (size_hdr h) new_size)"
    by (cases "size_hdr h < new_size") (auto simp: min_def)
  have hp: "\<not> p < unat (header_size (alignment (config_m s)))"
       "headers s (p - unat (header_size (alignment (config_m s)))) = Some h"
    using hdr by (simp_all add: read_header_def split: if_splits)
  from allocate_keeps [OF a, of "p - unat (header_size (alignment (config_m s)))"] hp
  obtain h' where h': "headers s1 (p - unat (header_size (alignment (config_m s)))) = Some h'"
    and m: "map alignment_m (pools_m s1) = map alignment_m (pools_m s)"
    by auto
  have len1: "length (pools_m s1) = 8"
    using m len by (metis length_map)
  have al1: "\<forall>i < 8. alignment_m (pools_m s1 ! i) = alignment (config_m s1)"
  proof (intro allI impI)
    fix i :: nat assume i: "i < 8"
    have "alignment_m (pools_m s1 ! i) = map alignment_m (pools_m s1) ! i"
      using i len1 by simp
    also have "\<dots> = alignment_m (pools_m s ! i)"
      using i len by (simp add: m)
    finally show "alignment_m (pools_m s1 ! i) = alignment (config_m s1)"
      using al i fr by simp
  qed
  have rh2: "read_header (header_size (alignment (config_m ?s2))) p ?s2 = Some h'"
    using hp h' fr by (simp add: read_header_def memcpy_fields)
  have al2: "\<forall>i < 8. alignment_m (pools_m ?s2 ! i) = alignment (config_m ?s2)"
    using al1 by (simp add: memcpy_fields)
  from deallocate_ok [OF rh2 al2]
  obtain s3 where d: "deallocate (Some p) ?s2 = Inr s3" and b3: "bytes s3 = bytes ?s2"
    by blast
  have r: "reallocate (Some p) new_size s = Inr (Some q, s3)"
    using hdr out a d by (auto simp: reallocate_def Let_def)
  have "bytes s3 (q + k) = bytes s (p + k)" if "k < unat (min (size_hdr h) new_size)" for k
    using that fr by (simp add: b3 n [symmetric] memcpy_bytes)
  with r show ?thesis by blast
qed

text \<open>
  C4 (as the code has it). \<open>reallocate\<close> compares \<open>new_size\<close> with the size recorded in
  the block's header, which for a pool block is the pool's block size and not the size the
  caller asked for. If \<open>new_size\<close> is at most that size and more than half of it, the same
  address is returned and nothing changes. Otherwise \<open>allocate(new_size)\<close> is called: if it
  fails (also for \<open>new_size = 0\<close>), the result is \<open>nullptr\<close>; if it succeeds on a well-formed
  allocator for a block that is still allocated, the result is a different address, the call
  completes, and the first \<open>min(old_size, new_size)\<close> bytes at the new address equal the old
  block's bytes.
\<close>

theorem C4_reallocate_by_header_size:
  assumes hdr: "read_header (header_size (alignment (config_m s))) p s = Some h"
  shows "(new_size \<le> size_hdr h \<and> size_hdr h div 2 < new_size \<longrightarrow>
            reallocate (Some p) new_size s = Inr (Some p, s))
       \<and> (\<not> (new_size \<le> size_hdr h \<and> size_hdr h div 2 < new_size) \<longrightarrow>
            (fst (allocate new_size s) = None \<longrightarrow>
               reallocate (Some p) new_size s = Inr (None, snd (allocate new_size s)))
          \<and> (\<forall>q. fst (allocate new_size s) = Some q \<and> well_formed s \<and> allocated_block s p \<longrightarrow>
                 q \<noteq> p
               \<and> (\<exists>s3. reallocate (Some p) new_size s = Inr (Some q, s3)
                      \<and> (\<forall>k < unat (min (size_hdr h) new_size).
                             bytes s3 (q + k) = bytes s (p + k)))))"
proof (intro conjI impI allI)
  assume "new_size \<le> size_hdr h \<and> size_hdr h div 2 < new_size"
  with hdr show "reallocate (Some p) new_size s = Inr (Some p, s)"
    by (simp add: reallocate_def Let_def)
next
  assume "\<not> (new_size \<le> size_hdr h \<and> size_hdr h div 2 < new_size)"
     and "fst (allocate new_size s) = None"
  with hdr show "reallocate (Some p) new_size s = Inr (None, snd (allocate new_size s))"
    by (cases "allocate new_size s") (auto simp: reallocate_def Let_def)
next
  fix q
  assume out: "\<not> (new_size \<le> size_hdr h \<and> size_hdr h div 2 < new_size)"
     and q: "fst (allocate new_size s) = Some q \<and> well_formed s \<and> allocated_block s p"
  then obtain s1 where a: "allocate new_size s = (Some q, s1)"
    by (cases "allocate new_size s") auto
  from q have wf: "well_formed s" and blk: "allocated_block s p"
    by simp_all
  show "q \<noteq> p"
    by (rule allocate_avoids_allocated_block [OF a wf blk])
  have al: "\<forall>i < 8. alignment_m (pools_m s ! i) = alignment (config_m s)"
    using wf by (simp add: well_formed_def)
  have len: "length (pools_m s) = 8"
    using wf by (simp add: well_formed_def)
  show "\<exists>s3. reallocate (Some p) new_size s = Inr (Some q, s3)
           \<and> (\<forall>k < unat (min (size_hdr h) new_size). bytes s3 (q + k) = bytes s (p + k))"
    by (rule reallocate_moves [OF hdr out a al len])
qed

text \<open>The claim read with the requested size fails: after \<open>allocate(5)\<close> the header holds
  8, so \<open>reallocate(p, 3)\<close> moves the block although \<open>5/2 < 3 \<le> 5\<close>, \<open>reallocate(p, 7)\<close>
  returns \<open>p\<close> although \<open>7 > 5\<close>, and \<open>reallocate(p, 0)\<close> returns \<open>nullptr\<close>.\<close>

theorem C4_counterexample:
  "fst (allocate 5 default_machine) = Some 4128
   \<and> (5 :: size_t) div 2 < 3 \<and> (3 :: size_t) \<le> 5
   \<and> map_sum id fst (reallocate (Some 4128) 3 (snd (allocate 5 default_machine))) = Inr (Some 4168)
   \<and> \<not> (7 :: size_t) \<le> 5
   \<and> reallocate (Some 4128) 7 (snd (allocate 5 default_machine))
       = Inr (Some 4128, snd (allocate 5 default_machine))
   \<and> reallocate (Some 4128) 0 (snd (allocate 5 default_machine))
       = Inr (None, snd (allocate 5 default_machine))"
proof -
  let ?s = "snd (allocate 5 default_machine)"
  let ?h = "\<lparr>size_hdr = 8, block_size = 8, in_use = True, pool_ptr = Some 0\<rparr>"
  note hdr = default_allocate_5_header
  have a: "fst (allocate 5 default_machine) = Some 4128"
    by (simp add: fresh_allocate_5)
  obtain s1 where a3: "allocate 3 ?s = (Some 4168, s1)"
    using default_allocate_5_then_3 by (cases "allocate 3 ?s") auto
  have "\<not> ((3 :: size_t) \<le> size_hdr ?h \<and> size_hdr ?h div 2 < 3)"
    by simp
  from reallocate_moves [OF hdr this a3 default_allocate_5_well_formed(3,4)]
  have r3: "map_sum id fst (reallocate (Some 4128) 3 ?s) = Inr (Some 4168)"
    by auto
  have r7: "reallocate (Some 4128) 7 ?s = Inr (Some 4128, ?s)"
    using hdr by (simp add: reallocate_def Let_def)
  have r0: "reallocate (Some 4128) 0 ?s = Inr (None, ?s)"
    using hdr by (simp add: reallocate_def Let_def allocate_def)
  show ?thesis
    using a r3 r7 r0 by simp
qed

theorem C4_witness:
  "read_header (header_size (alignment (config_m (snd (allocate 5 default_machine))))) 4128
      (snd (allocate 5 default_machine))
     = Some \<lparr>size_hdr = 8, block_size = 8, in_use = True, pool_ptr = Some 0\<rparr>
   \<and> reallocate (Some 4128) 7 (snd (allocate 5 default_machine))
       = Inr (Some 4128, snd (allocate 5 default_machine))
   \<and> reallocate (Some 4128) 0 (snd (allocate 5 default_machine))
       = Inr (None, snd (allocate 5 default_machine))
   \<and> fst (allocate 3 (snd (allocate 5 default_machine))) = Some 4168
   \<and> well_formed (snd (allocate 5 default_machine))
   \<and> allocated_block (snd (allocate 5 default_machine)) 4128
   \<and> (\<exists>s3. reallocate (Some 4128) 3 (snd (allocate 5 default_machine)) = Inr (Some 4168, s3)
          \<and> (\<forall>k < 3. bytes s3 (4168 + k) = bytes (snd (allocate 5 default_machine)) (4128 + k)))"
proof -
  let ?s = "snd (allocate 5 default_machine)"
  let ?h = "\<lparr>size_hdr = 8, block_size = 8, in_use = True, pool_ptr = Some 0\<rparr>"
  note hdr = default_allocate_5_header
  note wf = default_allocate_5_well_formed(1,2)
  note a3 = default_allocate_5_then_3
  have a0: "allocate 0 ?s = (None, ?s)"
    by (simp add: allocate_def)
  have "reallocate (Some 4128) 7 ?s = Inr (Some 4128, ?s)"
    using C4_reallocate_by_header_size [OF hdr, of 7] by simp
  moreover have "reallocate (Some 4128) 0 ?s = Inr (None, ?s)"
    using C4_reallocate_by_header_size [OF hdr, of 0] by (simp add: a0)
  moreover have "\<exists>s3. reallocate (Some 4128) 3 ?s = Inr (Some 4168, s3)
          \<and> (\<forall>k < 3. bytes s3 (4168 + k) = bytes ?s (4128 + k))"
    using C4_reallocate_by_header_size [OF hdr, of 3] a3 wf by simp
  ultimately show ?thesis
    using hdr a3 wf by blast
qed

text \<open>
  For a block that carries a header: when \<open>new_size\<close> is outside the keep range and the
  \<open>allocate\<close> inside \<open>reallocate\<close> returns \<open>nullptr\<close>, \<open>reallocate\<close> returns \<open>nullptr\<close> and
  the machine is the one \<open>allocate\<close> left: the old block's header is still there and
  unchanged, no payload byte has changed, nothing was passed to \<open>free\<close>, every pool (free
  lists included) is unchanged, and the thread cache is either unchanged or newly created
  empty.
\<close>

lemma reallocate_failure_keeps_block_with_header:
  assumes hdr: "read_header (header_size (alignment (config_m s))) p s = Some h"
      and out: "\<not> (new_size \<le> size_hdr h \<and> size_hdr h div 2 < new_size)"
      and fail: "fst (allocate new_size s) = None"
  shows "reallocate (Some p) new_size s = Inr (None, snd (allocate new_size s))
       \<and> read_header (header_size (alignment (config_m (snd (allocate new_size s))))) p
            (snd (allocate new_size s)) = Some h
       \<and> headers (snd (allocate new_size s)) = headers s
       \<and> bytes (snd (allocate new_size s)) = bytes s
       \<and> freed (snd (allocate new_size s)) = freed s
       \<and> pools_m (snd (allocate new_size s)) = pools_m s
       \<and> (tls_cache (snd (allocate new_size s)) = tls_cache s
           \<or> tls_cache (snd (allocate new_size s))
               = Some (new_Thread_Local_Cache\<lparr>cache_size := tls_cache_size (config_m s)\<rparr>))"
proof -
  obtain s1 where a: "allocate new_size s = (None, s1)"
    using fail by (cases "allocate new_size s") auto
  note fr = allocate_None_frame [OF a]
  have r: "reallocate (Some p) new_size s = Inr (None, s1)"
    using hdr out a by (auto simp: reallocate_def Let_def)
  have rh: "read_header (header_size (alignment (config_m s1))) p s1 = Some h"
    using hdr fr by (simp add: read_header_cong [of s1 s])
  show ?thesis
    using r rh fr by (simp add: a)
qed

lemma reallocate_failure_keeps_block_with_header_example:
  "read_header (header_size (alignment (config_m (snd (allocate 5 (new_machine 1073741824 True 8 4096 4140))))))
      4128 (snd (allocate 5 (new_machine 1073741824 True 8 4096 4140)))
     = Some \<lparr>size_hdr = 8, block_size = 8, in_use = True, pool_ptr = Some 0\<rparr>
   \<and> fst (allocate 100 (snd (allocate 5 (new_machine 1073741824 True 8 4096 4140)))) = None
   \<and> reallocate (Some 4128) 100 (snd (allocate 5 (new_machine 1073741824 True 8 4096 4140)))
       = Inr (None, snd (allocate 100 (snd (allocate 5 (new_machine 1073741824 True 8 4096 4140)))))
   \<and> headers (snd (allocate 100 (snd (allocate 5 (new_machine 1073741824 True 8 4096 4140)))))
       = [4096 \<mapsto> \<lparr>size_hdr = 8, block_size = 8, in_use = True, pool_ptr = Some 0\<rparr>]
   \<and> freed (snd (allocate 100 (snd (allocate 5 (new_machine 1073741824 True 8 4096 4140))))) = []"
proof -
  let ?s = "snd (allocate 5 (new_machine 1073741824 True 8 4096 4140))"
  let ?h = "\<lparr>size_hdr = 8, block_size = 8, in_use = True, pool_ptr = Some 0\<rparr>"
  note f = fresh_allocate_5_fields [of 4140, simplified]
  have hdr: "read_header (header_size (alignment (config_m ?s))) 4128 ?s = Some ?h"
    by (simp add: f fresh_config header_size_8 read_header_def)
  have out: "\<not> ((100 :: size_t) \<le> size_hdr ?h \<and> size_hdr ?h div 2 < 100)"
    by simp
  note fail = fresh_allocate_5_then_100
  have fr: "freed ?s = []"
    using allocate_frame [of 5 "new_machine 1073741824 True 8 4096 4140" "Some 4128" ?s]
    by (simp add: fresh_allocate_5 new_machine_fields(2-))
  show ?thesis
    using hdr fail reallocate_failure_keeps_block_with_header [OF hdr out fail]
    by (simp add: f fr)
qed

section \<open>The scoped handle\<close>

lemma return_to_tls_stats_m: "stats_m (snd (return_to_tls k q s)) = stats_m s"
  by (simp add: return_to_tls_def get_tls_cache_def Let_def split: prod.splits option.splits)

lemma Fixed_Size_Pool_deallocate_stats_m:
  "Fixed_Size_Pool_deallocate i q s = Inr s' \<Longrightarrow> stats_m s' = stats_m s"
  by (auto simp: Fixed_Size_Pool_deallocate_def Let_def split: option.splits if_splits)

lemma deallocate_free_count:
  assumes "deallocate (Some p) s = Inr s'"
  shows "free_count (stats_m s') = free_count (stats_m s) + 1"
proof -
  let ?s1 = "s\<lparr>stats_m := (stats_m s)\<lparr>free_count := free_count (stats_m s) + 1\<rparr>\<rparr>"
  obtain h where h: "read_header (header_size (alignment (config_m s))) p s = Some h"
    using assms by (auto simp: deallocate_def Let_def split: option.splits)
  let ?k = "find_pool_index (config_m s) (block_size h)"
  show ?thesis
  proof (cases "pool_ptr h \<noteq> None \<and> 0 \<le> ?k \<and> pool_ptr h = Some (nat ?k)")
    case True
    obtain b s2 where r: "return_to_tls ?k (Some p) ?s1 = (b, s2)"
      by (cases "return_to_tls ?k (Some p) ?s1")
    have s2: "stats_m s2 = stats_m ?s1"
      using return_to_tls_stats_m [of ?k "Some p" ?s1] r by simp
    show ?thesis
    proof (cases b)
      case True
      with assms h \<open>pool_ptr h \<noteq> None \<and> 0 \<le> ?k \<and> pool_ptr h = Some (nat ?k)\<close> r s2
      show ?thesis by (auto simp: deallocate_def Let_def)
    next
      case False
      with assms h \<open>pool_ptr h \<noteq> None \<and> 0 \<le> ?k \<and> pool_ptr h = Some (nat ?k)\<close> r s2
      show ?thesis
        by (auto simp: deallocate_def Let_def split: sum.splits
                 dest!: Fixed_Size_Pool_deallocate_stats_m)
    qed
  next
    case False
    with assms h show ?thesis
      by (auto simp: deallocate_def Let_def free_def)
  qed
qed

text \<open>
  For every size: if the allocation made by the constructor of \<open>Memory_Pool_RAII\<close> fails,
  the constructor throws \<open>std::runtime_error\<close> and no handle exists; if it succeeds, the
  handle holds the allocated address and the requested size, its destructor is one call of
  \<open>deallocate\<close> on that address, and a destructor that completes has raised \<open>free_count\<close>
  by exactly one.
\<close>

lemma scoped_handle_ctor_dtor:
  "(fst (allocate sz s) = None \<longrightarrow>
      Memory_Pool_RAII_ctor sz s
        = (Inl (Runtime_Error ''Memory allocation failed''), snd (allocate sz s)))
   \<and> (\<forall>p. fst (allocate sz s) = Some p \<longrightarrow>
          Memory_Pool_RAII_ctor sz s
            = (Inr \<lparr>memory_ptr_m = Some p, size_m = sz\<rparr>, snd (allocate sz s))
        \<and> (\<forall>s1. Memory_Pool_RAII_dtor \<lparr>memory_ptr_m = Some p, size_m = sz\<rparr> s1
                   = deallocate (Some p) s1)
        \<and> (\<forall>s1 s2. Memory_Pool_RAII_dtor \<lparr>memory_ptr_m = Some p, size_m = sz\<rparr> s1 = Inr s2
                   \<longrightarrow> free_count (stats_m s2) = free_count (stats_m s1) + 1))"
  by (auto simp: Memory_Pool_RAII_ctor_def Memory_Pool_RAII_dtor_def split: prod.splits
           dest: deallocate_free_count)

lemma scoped_handle_ctor_dtor_example:
  "fst (allocate 64 (new_machine 1073741824 True 8 4096 4100)) = None
   \<and> fst (Memory_Pool_RAII_ctor 64 (new_machine 1073741824 True 8 4096 4100))
       = Inl (Runtime_Error ''Memory allocation failed'')
   \<and> fst (allocate 64 default_machine) = Some 4128
   \<and> Memory_Pool_RAII_ctor 64 default_machine
       = (Inr \<lparr>memory_ptr_m = Some 4128, size_m = 64\<rparr>, snd (allocate 64 default_machine))
   \<and> Memory_Pool_RAII_dtor \<lparr>memory_ptr_m = Some 4128, size_m = 64\<rparr> (snd (allocate 64 default_machine))
       = deallocate (Some 4128) (snd (allocate 64 default_machine))
   \<and> (\<exists>s2. Memory_Pool_RAII_dtor \<lparr>memory_ptr_m = Some 4128, size_m = 64\<rparr>
               (snd (allocate 64 default_machine)) = Inr s2
          \<and> free_count (stats_m s2) = 1)"
proof -
  let ?t = "new_machine 1073741824 True 8 4096 4100"
  let ?s = "snd (allocate 64 default_machine)"
  have k: "find_pool_index (config_m ?t) 64 = 3"
    by (simp add: find_pool_index_fresh)
  have c: "small_block_sizes (config_m ?t) ! 3 = 64"
    by (simp add: fresh_config)
  have n: "fst (allocate 64 ?t) = None"
    by (rule allocate_fresh_small_exhausted) (simp_all add: k c header_size_8)
  have a: "fst (allocate 64 default_machine) = Some 4128"
    by (simp add: default_allocate_64)
  have d: "Memory_Pool_RAII_dtor \<lparr>memory_ptr_m = Some 4128, size_m = 64\<rparr> ?s
         = Inr (?s\<lparr>stats_m := \<lparr>total_allocated = 64, total_freed = 0, current_used = 64,
                         current_free = - 64, alloc_count = 1, free_count = 1, fragment_count = 0\<rparr>,
             tls_cache := Some \<lparr>cache = [[], [], [], [4128], [], [], [], []], cache_size = 16\<rparr>\<rparr>)"
    by (simp add: Memory_Pool_RAII_dtor_def default_deallocate_64)
  have "fst (Memory_Pool_RAII_ctor 64 ?t) = Inl (Runtime_Error ''Memory allocation failed'')"
    using scoped_handle_ctor_dtor [of 64 ?t] n by simp
  moreover have "Memory_Pool_RAII_ctor 64 default_machine
       = (Inr \<lparr>memory_ptr_m = Some 4128, size_m = 64\<rparr>, ?s)"
    and "Memory_Pool_RAII_dtor \<lparr>memory_ptr_m = Some 4128, size_m = 64\<rparr> ?s = deallocate (Some 4128) ?s"
    using scoped_handle_ctor_dtor [of 64 default_machine] a by simp_all
  moreover have "\<exists>s2. Memory_Pool_RAII_dtor \<lparr>memory_ptr_m = Some 4128, size_m = 64\<rparr> ?s = Inr s2
          \<and> free_count (stats_m s2) = 1"
    using scoped_handle_ctor_dtor [of 64 default_machine] a d
    by (simp add: default_allocate_64_fields)
  ultimately show ?thesis
    using n a by blast
qed

section \<open>Blocks above 1024 bytes in reallocate and in the scoped handle\<close>

lemma default_allocate_2000:
  "allocate 2000 default_machine =
     (Some 4096,
      default_machine\<lparr>stats_m := \<lparr>total_allocated = 2000, total_freed = 0, current_used = 2000,
                                   current_free = 0, alloc_count = 1, free_count = 0,
                                   fragment_count = 0\<rparr>,
                      heap_next := 6096\<rparr>)"
proof -
  have k: "find_pool_index (config_m default_machine) 2000 = - 1"
    by (simp add: find_pool_index_fresh)
  show ?thesis
    by (simp add: allocate_def Let_def k malloc_def new_machine_fields(2-))
qed


text \<open>
  C8 (the code departs from the claim). On the default allocator the constructor of
  \<open>Memory_Pool_RAII\<close> succeeds for 2000 bytes and the handle holds 4096; its destructor
  does not release the block: \<open>deallocate\<close> reads the header that the large path of
  \<open>allocate\<close> never wrote.
\<close>

theorem C8_large_handle_destructor_reads_missing_header:
  "Memory_Pool_RAII_ctor 2000 default_machine
     = (Inr \<lparr>memory_ptr_m = Some 4096, size_m = 2000\<rparr>, snd (allocate 2000 default_machine))
   \<and> Memory_Pool_RAII_dtor \<lparr>memory_ptr_m = Some 4096, size_m = 2000\<rparr>
        (snd (allocate 2000 default_machine)) = Inl Undefined_Behaviour"
  unfolding Memory_Pool_RAII_ctor_def Memory_Pool_RAII_dtor_def default_allocate_2000
  by (simp add: deallocate_def Let_def read_header_def new_machine_fields(2-) default_config
        header_size_8)

section \<open>Allocate, then deallocate, on a fresh allocator\<close>







end
